theory Spec2Isabelle
  imports Complex_Main "HOL-Library.Word" "HOL-Library.Log_Nat"
begin

section \<open>Data model\<close>

text \<open>
  A sample is an 8-bit unsigned integer.  A grayscale frame is a numpy array of shape
  (H, W), modelled as a list of H rows of W samples; a colour frame has shape (H, W, 3)
  and is a list of rows of (B, G, R) triples.  A floating-point value is the real number
  it denotes.  The model has two layers.  The ideal layer computes with exact real
  arithmetic; it carries the properties that do not depend on rounding.  The binary64
  layer (names ending in \<open>_f64\<close>, and the rotation angle) rounds every operation as
  the interpreter and numpy do; it carries the properties of the values computed.
\<close>

type_synonym uint8 = "8 word"
type_synonym 'a array2 = "'a list list"
type_synonym gray_frame = "uint8 array2"
type_synonym bgr = "uint8 \<times> uint8 \<times> uint8"
type_synonym bgr_frame = "bgr array2"

datatype py_error = ZeroDivisionError

text \<open>Python's true division \<open>a / b\<close> on two ints: raises on a zero divisor.\<close>

definition py_truediv :: "int \<Rightarrow> int \<Rightarrow> py_error + real" where
  "py_truediv a b = (if b = 0 then Inl ZeroDivisionError else Inr (real_of_int a / real_of_int b))"

text \<open>Python's \<open>x % y\<close> on floats: the result has the sign of the divisor.\<close>

definition py_mod :: "real \<Rightarrow> real \<Rightarrow> real" where
  "py_mod x y = x - y * of_int \<lfloor>x / y\<rfloor>"

section \<open>IEEE binary64 arithmetic\<close>

text \<open>
  A Python float and a numpy \<open>float64\<close> are IEEE binary64 numbers, and every operation
  returns the exact result rounded to the nearest number with a 53-bit significand, ties
  to the even significand.  \<open>float_exponent x\<close> is the integer \<open>e\<close> with
  \<open>2^e \<le> |x| < 2^(e+1)\<close>.  The exponent range is not bounded in the model: the values of
  these scripts stay far from overflow and from the subnormal range.
\<close>

definition float_exponent :: "real \<Rightarrow> int" where
  "float_exponent x =
     (if 1 \<le> \<bar>x\<bar> then bitlen \<lfloor>\<bar>x\<bar>\<rfloor> - 1 else - bitlen (\<lceil>1 / \<bar>x\<bar>\<rceil> - 1))"

definition round_half_even :: "real \<Rightarrow> int" where
  "round_half_even t =
     (let f = \<lfloor>t\<rfloor>; r = t - of_int f
      in if r < 1 / 2 then f else if 1 / 2 < r then f + 1 else if even f then f else f + 1)"

definition rnd64 :: "real \<Rightarrow> real" where
  "rnd64 x =
     (if x = 0 then 0
      else (let q = 2 powi (float_exponent x - 52)
            in of_int (round_half_even (x / q)) * q))"

text \<open>Python's \<open>a / b\<close> on two ints is the correctly rounded quotient.\<close>

definition float_truediv :: "int \<Rightarrow> int \<Rightarrow> py_error + real" where
  "float_truediv a b =
     (if b = 0 then Inl ZeroDivisionError else Inr (rnd64 (real_of_int a / real_of_int b)))"

text \<open>The value of \<open>math.pi\<close>.\<close>

definition math_pi :: real where
  "math_pi = 884279719003555 / 281474976710656"

section \<open>Exercise 1: the contrast adjuster\<close>

subsection \<open>The numpy operations the script uses\<close>

text \<open>\<open>np.mean(gray)\<close>: the sum of all samples over their number.\<close>

definition np_mean :: "gray_frame \<Rightarrow> real" where
  "np_mean gray = real (sum_list (map unat (concat gray))) / real (length (concat gray))"

text \<open>\<open>gray.astype(np.float32)\<close>.\<close>

definition astype_float :: "gray_frame \<Rightarrow> real array2" where
  "astype_float gray = map (map (\<lambda>s. real (unat s))) gray"

text \<open>Broadcast arithmetic of an array with a scalar.\<close>

definition arr_sub :: "real array2 \<Rightarrow> real \<Rightarrow> real array2" where
  "arr_sub a c = map (map (\<lambda>x. x - c)) a"

definition arr_add :: "real array2 \<Rightarrow> real \<Rightarrow> real array2" where
  "arr_add a c = map (map (\<lambda>x. x + c)) a"

definition arr_scale :: "real \<Rightarrow> real array2 \<Rightarrow> real array2" where
  "arr_scale k a = map (map (\<lambda>x. k * x)) a"

text \<open>\<open>np.clip(a, lo, hi)\<close> is \<open>minimum(maximum(a, lo), hi)\<close>.\<close>

definition np_clip :: "real array2 \<Rightarrow> real \<Rightarrow> real \<Rightarrow> real array2" where
  "np_clip a lo hi = map (map (\<lambda>x. min (max x lo) hi)) a"

text \<open>
  \<open>.astype(np.uint8)\<close> on a float: the fraction is dropped (rounding toward zero) and the
  integer is stored in 8 bits.
\<close>

definition trunc_to_uint8 :: "real \<Rightarrow> uint8" where
  "trunc_to_uint8 x = word_of_int (if 0 \<le> x then \<lfloor>x\<rfloor> else \<lceil>x\<rceil>)"

definition astype_uint8 :: "real array2 \<Rightarrow> gray_frame" where
  "astype_uint8 a = map (map trunc_to_uint8) a"

subsection \<open>The contrast factor and the transform (lines 34 to 45)\<close>

definition contrast_alpha :: "string \<Rightarrow> real \<Rightarrow> real" where
  "contrast_alpha contrast_mode progress =
     (if contrast_mode = ''linear'' then 0.8 + (1.5 - 0.8) * progress
      else if contrast_mode = ''sine'' then 1.15 + 0.35 * sin (2 * pi * progress * 2)
      else 1.0)"

definition adjust_contrast :: "real \<Rightarrow> gray_frame \<Rightarrow> gray_frame" where
  "adjust_contrast alpha gray =
     (let mean = np_mean gray;
          adjusted = arr_add (arr_scale alpha (arr_sub (astype_float gray) mean)) mean
      in astype_uint8 (np_clip adjusted 0 255))"

text \<open>
  The transform in the words of the specification: every sample \<open>s\<close> becomes
  \<open>clamp(alpha * (s - m) + m, 0, 255)\<close>, truncated to 8 bits.
\<close>

definition clamp :: "real \<Rightarrow> real \<Rightarrow> real \<Rightarrow> real" where
  "clamp x lo hi = (if x < lo then lo else if hi < x then hi else x)"

definition spec_sample :: "real \<Rightarrow> real \<Rightarrow> uint8 \<Rightarrow> uint8" where
  "spec_sample alpha m s = word_of_int \<lfloor>clamp (alpha * (real (unat s) - m) + m) 0 255\<rfloor>"

section \<open>The frame source and the frame sink\<close>

text \<open>
  What \<open>cv2.VideoCapture\<close> finds at the input path: the header values the script reads
  with \<open>cap.get\<close> and the frames \<open>cap.read\<close> can deliver.  The declared frame count is
  a header value and need not be the number of frames that can be read.
\<close>

record video =
  v_fps :: real
  v_width :: int
  v_height :: int
  v_frame_count :: int
  v_frames :: "bgr_frame list"

record capture =
  cap_opened :: bool
  cap_pending :: "bgr_frame list"

definition VideoCapture :: "video \<Rightarrow> capture" where
  "VideoCapture v = \<lparr>cap_opened = True, cap_pending = v_frames v\<rparr>"

definition cap_release :: "capture \<Rightarrow> capture" where
  "cap_release c = c\<lparr>cap_opened := False\<rparr>"

text \<open>
  A \<open>cv2.VideoWriter\<close>.  Whether the library can open a sink for a path and a codec is
  a property of the machine: the parameter \<open>env\<close>.  Writing to a writer that is not open
  does nothing.
\<close>

record 'f writer =
  wr_path :: string
  wr_fourcc :: string
  wr_fps :: real
  wr_size :: "int \<times> int"
  wr_is_color :: bool
  wr_opened :: bool
  wr_frames :: "'f list"

type_synonym sink_env = "string \<Rightarrow> string \<Rightarrow> bool"

definition VideoWriter ::
  "sink_env \<Rightarrow> string \<Rightarrow> string \<Rightarrow> real \<Rightarrow> int \<times> int \<Rightarrow> bool \<Rightarrow> 'f writer" where
  "VideoWriter env path fourcc fps dsize is_color =
     \<lparr>wr_path = path, wr_fourcc = fourcc, wr_fps = fps, wr_size = dsize,
      wr_is_color = is_color, wr_opened = env path fourcc, wr_frames = []\<rparr>"

definition wr_write :: "'f writer \<Rightarrow> 'f \<Rightarrow> 'f writer" where
  "wr_write w f = (if wr_opened w then w\<lparr>wr_frames := wr_frames w @ [f]\<rparr> else w)"

definition wr_release :: "'f writer \<Rightarrow> 'f writer" where
  "wr_release w = w\<lparr>wr_opened := False\<rparr>"

text \<open>The lines the scripts print.\<close>

datatype message =
    ErrCouldNotOpenVideo
  | Finished string string
  | ErrCannotOpen
  | VideoInfo int int real int
  | WarnTryingXVID
  | ErrNoCodec
  | Processing int int
  | SavedNormal string
  | SavedScaled string

text \<open>
  The state a run leaves behind: the value returned (\<open>None\<close> is Python's \<open>None\<close>), the
  capture (if the source was opened), every writer the run created, in the order of
  creation and in its final state, and the lines printed.
\<close>

record 'f run =
  run_result :: "bool option"
  run_cap :: "capture option"
  run_writers :: "'f writer list"
  run_log :: "message list"

subsection \<open>Exercise 1: \<open>process_video\<close>\<close>

text \<open>
  \<open>cv2.cvtColor(frame, cv2.COLOR_BGR2GRAY)\<close> maps every pixel to one sample; the
  library's weighting of the three channels is the parameter \<open>luma\<close>.
\<close>

definition cvtColor_BGR2GRAY :: "(bgr \<Rightarrow> uint8) \<Rightarrow> bgr_frame \<Rightarrow> gray_frame" where
  "cvtColor_BGR2GRAY luma frame = map (map luma) frame"

text \<open>
  The fixed-point weighting 0.299 R + 0.587 G + 0.114 B of OpenCV 4 (15 fractional
  bits), for the examples.
\<close>

definition luma_fixed :: "bgr \<Rightarrow> uint8" where
  "luma_fixed p = (case p of (b, g, r) \<Rightarrow>
     word_of_nat ((3735 * unat b + 19235 * unat g + 9798 * unat r + 16384) div 32768))"

text \<open>
  The body of the loop, lines 28 to 45: the frame that is written, in the ideal layer
  (exact arithmetic).  The values the program computes are those of
  \<open>contrast_frame_f64\<close> below.
\<close>

definition contrast_frame ::
  "(bgr \<Rightarrow> uint8) \<Rightarrow> string \<Rightarrow> int \<Rightarrow> int \<Rightarrow> bgr_frame \<Rightarrow> py_error + gray_frame" where
  "contrast_frame luma contrast_mode total_frames frame_idx frame =
     (let gray = cvtColor_BGR2GRAY luma frame in
      case py_truediv frame_idx total_frames of
        Inl e \<Rightarrow> Inl e
      | Inr progress \<Rightarrow>
          (let alpha = contrast_alpha contrast_mode progress
           in Inr (adjust_contrast alpha gray)))"

text \<open>
  The loop of lines 23 to 50.  The capture stays open inside the loop, so the loop ends
  when \<open>cap.read\<close> has no frame left.
\<close>

fun contrast_loop ::
  "(bgr \<Rightarrow> uint8) \<Rightarrow> string \<Rightarrow> int \<Rightarrow> int \<Rightarrow> bgr_frame list \<Rightarrow> gray_frame writer
     \<Rightarrow> py_error + gray_frame writer" where
  "contrast_loop luma contrast_mode total_frames frame_idx [] out = Inr out"
| "contrast_loop luma contrast_mode total_frames frame_idx (frame # rest) out =
     (case contrast_frame luma contrast_mode total_frames frame_idx frame of
        Inl e \<Rightarrow> Inl e
      | Inr adjusted \<Rightarrow>
          contrast_loop luma contrast_mode total_frames (frame_idx + 1) rest
            (wr_write out adjusted))"

definition process_video ::
  "(bgr \<Rightarrow> uint8) \<Rightarrow> sink_env \<Rightarrow> video option \<Rightarrow> string \<Rightarrow> string
     \<Rightarrow> py_error + gray_frame run" where
  "process_video luma env source output_path contrast_mode =
     (case source of
        None \<Rightarrow>
          Inr \<lparr>run_result = None, run_cap = None, run_writers = [],
               run_log = [ErrCouldNotOpenVideo]\<rparr>
      | Some v \<Rightarrow>
          (let cap = VideoCapture v;
               fps = v_fps v;
               width = v_width v;
               height = v_height v;
               total_frames = v_frame_count v;
               fourcc = ''mp4v'';
               out = VideoWriter env output_path fourcc fps (width, height) False
           in case contrast_loop luma contrast_mode total_frames 0 (cap_pending cap) out of
                Inl e \<Rightarrow> Inl e
              | Inr out' \<Rightarrow>
                  Inr \<lparr>run_result = None,
                       run_cap = Some (cap_release (cap\<lparr>cap_pending := []\<rparr>)),
                       run_writers = [wr_release out'],
                       run_log = [Finished contrast_mode output_path]\<rparr>))"

subsection \<open>The contrast adjuster in binary64 (lines 28 to 45)\<close>

text \<open>
  The values the loop body computes.  \<open>np.mean\<close> of a \<open>uint8\<close> array adds the samples in
  \<open>float64\<close> (exactly, the sum is an integer) and divides once.  The \<open>float32\<close> array
  minus the \<open>float64\<close> mean is a \<open>float64\<close> array under numpy's promotion rules for
  numpy scalars, and so are the product with the Python float \<open>alpha\<close> and the sum with
  the mean.  \<open>np.clip\<close> and the conversion of the samples to float are exact.
\<close>

definition np_mean_f64 :: "gray_frame \<Rightarrow> real" where
  "np_mean_f64 gray =
     rnd64 (real (sum_list (map unat (concat gray))) / real (length (concat gray)))"

definition arr_sub_f64 :: "real array2 \<Rightarrow> real \<Rightarrow> real array2" where
  "arr_sub_f64 a c = map (map (\<lambda>x. rnd64 (x - c))) a"

definition arr_add_f64 :: "real array2 \<Rightarrow> real \<Rightarrow> real array2" where
  "arr_add_f64 a c = map (map (\<lambda>x. rnd64 (x + c))) a"

definition arr_scale_f64 :: "real \<Rightarrow> real array2 \<Rightarrow> real array2" where
  "arr_scale_f64 k a = map (map (\<lambda>x. rnd64 (k * x))) a"

definition adjust_contrast_f64 :: "real \<Rightarrow> gray_frame \<Rightarrow> gray_frame" where
  "adjust_contrast_f64 alpha gray =
     (let mean = np_mean_f64 gray;
          adjusted = arr_add_f64 (arr_scale_f64 alpha (arr_sub_f64 (astype_float gray) mean)) mean
      in astype_uint8 (np_clip adjusted 0 255))"

text \<open>
  The contrast factor of lines 35 to 40.  The literals are the nearest binary64 numbers;
  \<open>math.sin\<close> is the C library's sine, the parameter \<open>msin\<close>.
\<close>

definition contrast_alpha_f64 :: "(real \<Rightarrow> real) \<Rightarrow> string \<Rightarrow> real \<Rightarrow> real" where
  "contrast_alpha_f64 msin contrast_mode progress =
     (if contrast_mode = ''linear''
      then rnd64 (rnd64 0.8 + rnd64 (rnd64 (1.5 - rnd64 0.8) * progress))
      else if contrast_mode = ''sine''
      then rnd64 (rnd64 1.15 +
             rnd64 (rnd64 0.35 * msin (rnd64 (rnd64 (rnd64 (2 * math_pi) * progress) * 2))))
      else 1.0)"

definition contrast_frame_f64 ::
  "(real \<Rightarrow> real) \<Rightarrow> (bgr \<Rightarrow> uint8) \<Rightarrow> string \<Rightarrow> int \<Rightarrow> int \<Rightarrow> bgr_frame
     \<Rightarrow> py_error + gray_frame" where
  "contrast_frame_f64 msin luma contrast_mode total_frames frame_idx frame =
     (let gray = cvtColor_BGR2GRAY luma frame in
      case float_truediv frame_idx total_frames of
        Inl e \<Rightarrow> Inl e
      | Inr progress \<Rightarrow>
          (let alpha = contrast_alpha_f64 msin contrast_mode progress
           in Inr (adjust_contrast_f64 alpha gray)))"

text \<open>
  The transform in the words of the specification, with the arithmetic of the program:
  the mean of the frame, and for every sample \<open>clamp(alpha * (s - m) + m, 0, 255)\<close>
  truncated to 8 bits.
\<close>

definition spec_mean_f64 :: "gray_frame \<Rightarrow> real" where
  "spec_mean_f64 g =
     rnd64 ((\<Sum>row\<leftarrow>g. \<Sum>s\<leftarrow>row. real (unat s)) / real (\<Sum>row\<leftarrow>g. length row))"

definition spec_sample_f64 :: "real \<Rightarrow> real \<Rightarrow> uint8 \<Rightarrow> uint8" where
  "spec_sample_f64 alpha m s =
     word_of_int \<lfloor>clamp (rnd64 (rnd64 (alpha * rnd64 (real (unat s) - m)) + m)) 0 255\<rfloor>"

text \<open>
  The run of \<open>process_video\<close> with the values computed in binary64: the same steps as
  above, with the loop body \<open>contrast_frame_f64\<close>.
\<close>

fun contrast_loop_f64 ::
  "(real \<Rightarrow> real) \<Rightarrow> (bgr \<Rightarrow> uint8) \<Rightarrow> string \<Rightarrow> int \<Rightarrow> int \<Rightarrow> bgr_frame list
     \<Rightarrow> gray_frame writer \<Rightarrow> py_error + gray_frame writer" where
  "contrast_loop_f64 msin luma contrast_mode total_frames frame_idx [] out = Inr out"
| "contrast_loop_f64 msin luma contrast_mode total_frames frame_idx (frame # rest) out =
     (case contrast_frame_f64 msin luma contrast_mode total_frames frame_idx frame of
        Inl e \<Rightarrow> Inl e
      | Inr adjusted \<Rightarrow>
          contrast_loop_f64 msin luma contrast_mode total_frames (frame_idx + 1) rest
            (wr_write out adjusted))"

definition process_video_f64 ::
  "(real \<Rightarrow> real) \<Rightarrow> (bgr \<Rightarrow> uint8) \<Rightarrow> sink_env \<Rightarrow> video option \<Rightarrow> string \<Rightarrow> string
     \<Rightarrow> py_error + gray_frame run" where
  "process_video_f64 msin luma env source output_path contrast_mode =
     (case source of
        None \<Rightarrow>
          Inr \<lparr>run_result = None, run_cap = None, run_writers = [],
               run_log = [ErrCouldNotOpenVideo]\<rparr>
      | Some v \<Rightarrow>
          (let cap = VideoCapture v;
               fps = v_fps v;
               width = v_width v;
               height = v_height v;
               total_frames = v_frame_count v;
               fourcc = ''mp4v'';
               out = VideoWriter env output_path fourcc fps (width, height) False
           in case contrast_loop_f64 msin luma contrast_mode total_frames 0 (cap_pending cap) out of
                Inl e \<Rightarrow> Inl e
              | Inr out' \<Rightarrow>
                  Inr \<lparr>run_result = None,
                       run_cap = Some (cap_release (cap\<lparr>cap_pending := []\<rparr>)),
                       run_writers = [wr_release out'],
                       run_log = [Finished contrast_mode output_path]\<rparr>))"

text \<open>
  The frames a run writes, in the words of the specification: for every frame read, the
  samples of its grayscale mapped with the mean of that frame and the factor of the mode
  at the progress of its index.
\<close>

definition spec_contrast_frames ::
  "(real \<Rightarrow> real) \<Rightarrow> (bgr \<Rightarrow> uint8) \<Rightarrow> string \<Rightarrow> video \<Rightarrow> gray_frame list" where
  "spec_contrast_frames msin luma contrast_mode v =
     map (\<lambda>k. map (map (spec_sample_f64
                            (contrast_alpha_f64 msin contrast_mode
                               (rnd64 (real_of_int (int k) / real_of_int (v_frame_count v))))
                            (spec_mean_f64 (cvtColor_BGR2GRAY luma (v_frames v ! k)))))
                 (cvtColor_BGR2GRAY luma (v_frames v ! k)))
         [0..<length (v_frames v)]"

section \<open>Exercise 3: the rotation-scaler\<close>

text \<open>
  Python's \<open>s.replace(old, new)\<close>: every occurrence of \<open>old\<close>, from the left, without
  overlap.  With an empty \<open>old\<close>, Python puts \<open>new\<close> around every character.
\<close>

function py_replace :: "string \<Rightarrow> string \<Rightarrow> string \<Rightarrow> string" where
  "py_replace old new s =
     (if old = [] then new @ concat (map (\<lambda>c. c # new) s)
      else if s = [] then []
      else if take (length old) s = old then new @ py_replace old new (drop (length old) s)
      else hd s # py_replace old new (tl s))"
  by pat_completeness auto
termination
  by (relation "measure (\<lambda>(old, new, s). length s)") auto

declare py_replace.simps [simp del]

text \<open>
  A 2 x 3 affine matrix, and \<open>cv2.getRotationMatrix2D(center, angle, scale)\<close> as the
  library documents it: with \<open>a = scale * cos angle\<close> and \<open>b = scale * sin angle\<close> (the
  angle in degrees), the rows are \<open>(a, b, (1 - a) * cx - b * cy)\<close> and
  \<open>(- b, a, b * cx + (1 - a) * cy)\<close>.
\<close>

type_synonym affine = "(real \<times> real \<times> real) \<times> (real \<times> real \<times> real)"

definition getRotationMatrix2D :: "int \<times> int \<Rightarrow> real \<Rightarrow> real \<Rightarrow> affine" where
  "getRotationMatrix2D center angle scale =
     (case center of (cx, cy) \<Rightarrow>
        (let a = scale * cos (angle * pi / 180);
             b = scale * sin (angle * pi / 180)
         in ((a, b, (1 - a) * real_of_int cx - b * real_of_int cy),
             (- b, a, b * real_of_int cx + (1 - a) * real_of_int cy))))"

definition identity_affine :: affine where
  "identity_affine = ((1, 0, 0), (0, 1, 0))"

text \<open>
  \<open>cv2.warpAffine(frame, matrix, (width, height))\<close>, the library's resampler, is a
  parameter \<open>warp\<close> of the model.  What the library promises about it is stated where it
  is needed.  The frame shape \<open>(h, w)\<close>:
\<close>

type_synonym warp_fn = "bgr_frame \<Rightarrow> affine \<Rightarrow> int \<times> int \<Rightarrow> bgr_frame"

definition has_shape :: "'a array2 \<Rightarrow> int \<Rightarrow> int \<Rightarrow> bool" where
  "has_shape f h w = (int (length f) = h \<and> list_all (\<lambda>row. int (length row) = w) f)"

definition dims :: "'a array2 \<Rightarrow> nat list" where
  "dims f = map length f"

text \<open>
  A nearest-neighbour resampler with a black border, to instantiate \<open>warp\<close> in the
  examples: the destination pixel \<open>(x, y)\<close> is the source pixel at the inverse image.
\<close>

definition sample_at :: "bgr_frame \<Rightarrow> int \<Rightarrow> int \<Rightarrow> bgr" where
  "sample_at src x y =
     (if 0 \<le> y \<and> y < int (length src) \<and> 0 \<le> x \<and> x < int (length (src ! nat y))
      then src ! nat y ! nat x else (0, 0, 0))"

definition invert_affine :: "affine \<Rightarrow> affine" where
  "invert_affine M =
     (case M of ((a, b, c), (d, e, f)) \<Rightarrow>
        (let det = a * e - b * d
         in ((e / det, - b / det, (b * f - e * c) / det),
             (- d / det, a / det, (d * c - a * f) / det))))"

definition warp_nearest :: warp_fn where
  "warp_nearest src M dsize =
     (case dsize of (w, h) \<Rightarrow>
      case invert_affine M of ((a, b, c), (d, e, f)) \<Rightarrow>
        map (\<lambda>y. map (\<lambda>x. sample_at src (round (a * real x + b * real y + c))
                                          (round (d * real x + e * real y + f)))
                       [0..<nat w])
            [0..<nat h])"

subsection \<open>The angle and the scale of one frame (lines 110 to 137)\<close>

text \<open>
  Line 111 and line 112 in binary64: the quotient of the two ints is rounded, and so is
  its product with \<open>final_angle\<close> (an int or a float).
\<close>

definition rotation_progress :: "int \<Rightarrow> int \<Rightarrow> py_error + real" where
  "rotation_progress frame_idx total_frames =
     (if total_frames > 1 then float_truediv frame_idx (total_frames - 1) else Inr 0)"

definition rotation_angle :: "real \<Rightarrow> int \<Rightarrow> int \<Rightarrow> py_error + real" where
  "rotation_angle final_angle frame_idx total_frames =
     (case rotation_progress frame_idx total_frames of
        Inl e \<Rightarrow> Inl e
      | Inr progress \<Rightarrow> Inr (rnd64 (final_angle * progress)))"

text \<open>
  The progress and the angle of frame \<open>i\<close> in the words of the specification, with the
  arithmetic of the program.
\<close>

definition spec_progress :: "int \<Rightarrow> int \<Rightarrow> real" where
  "spec_progress i n = (if n > 1 then rnd64 (real_of_int i / real_of_int (n - 1)) else 0)"

definition spec_angle :: "real \<Rightarrow> int \<Rightarrow> int \<Rightarrow> real" where
  "spec_angle final_angle i n = rnd64 (final_angle * spec_progress i n)"

definition scaling_factor :: "int \<Rightarrow> int \<Rightarrow> real \<Rightarrow> real" where
  "scaling_factor width height current_angle =
     (let angle_rad = \<bar>current_angle * pi / 180\<bar> in
      if py_mod current_angle 90 \<noteq> 0 then
        (let cos_angle = \<bar>cos angle_rad\<bar>;
             sin_angle = \<bar>sin angle_rad\<bar>;
             new_width = real_of_int width * cos_angle + real_of_int height * sin_angle;
             new_height = real_of_int width * sin_angle + real_of_int height * cos_angle
         in min (real_of_int width / new_width) (real_of_int height / new_height))
      else 1.0)"

text \<open>
  The two frames written for one input frame (lines 110 to 146).  The angle is the
  binary64 angle of the program, so the test for a multiple of 90 takes the branch the
  program takes; the scale-to-fit factor at that angle is the ideal \<open>scaling_factor\<close>.
\<close>

definition rotate_frame ::
  "warp_fn \<Rightarrow> int \<Rightarrow> int \<Rightarrow> int \<Rightarrow> real \<Rightarrow> int \<Rightarrow> bgr_frame
     \<Rightarrow> py_error + (bgr_frame \<times> bgr_frame)" where
  "rotate_frame warp width height total_frames final_angle frame_idx frame =
     (let center = (width div 2, height div 2) in
      case rotation_angle final_angle frame_idx total_frames of
        Inl e \<Rightarrow> Inl e
      | Inr current_angle \<Rightarrow>
          (let rotation_matrix = getRotationMatrix2D center current_angle 1.0;
               rotated_frame = warp frame rotation_matrix (width, height);
               scale = scaling_factor width height current_angle;
               rotation_scale_matrix = getRotationMatrix2D center current_angle scale;
               rotated_scaled_frame = warp frame rotation_scale_matrix (width, height)
           in Inr (rotated_frame, rotated_scaled_frame)))"

text \<open>The two variants in the words of the specification.\<close>

definition spec_normal :: "warp_fn \<Rightarrow> int \<Rightarrow> int \<Rightarrow> real \<Rightarrow> bgr_frame \<Rightarrow> bgr_frame" where
  "spec_normal warp w h angle frame =
     warp frame (getRotationMatrix2D (w div 2, h div 2) angle 1) (w, h)"

definition spec_scaled :: "warp_fn \<Rightarrow> int \<Rightarrow> int \<Rightarrow> real \<Rightarrow> bgr_frame \<Rightarrow> bgr_frame" where
  "spec_scaled warp w h angle frame =
     warp frame (getRotationMatrix2D (w div 2, h div 2) angle (scaling_factor w h angle)) (w, h)"

text \<open>
  The frames a run writes to the normal and to the scaled sink, in the words of the
  specification: one per frame processed, the variant of that frame at the angle of its
  index.  The loop processes the frames it can read, at most the declared count.
\<close>

definition frames_processed :: "video \<Rightarrow> nat" where
  "frames_processed v = min (length (v_frames v)) (nat (v_frame_count v))"

definition spec_normal_frames :: "warp_fn \<Rightarrow> video \<Rightarrow> real \<Rightarrow> bgr_frame list" where
  "spec_normal_frames warp v final_angle =
     map (\<lambda>k. spec_normal warp (v_width v) (v_height v)
                 (spec_angle final_angle (int k) (v_frame_count v)) (v_frames v ! k))
         [0..<frames_processed v]"

definition spec_scaled_frames :: "warp_fn \<Rightarrow> video \<Rightarrow> real \<Rightarrow> bgr_frame list" where
  "spec_scaled_frames warp v final_angle =
     map (\<lambda>k. spec_scaled warp (v_width v) (v_height v)
                 (spec_angle final_angle (int k) (v_frame_count v)) (v_frames v ! k))
         [0..<frames_processed v]"

text \<open>The progress line of lines 148 to 151; it divides by the frame count.\<close>

definition progress_report :: "int \<Rightarrow> int \<Rightarrow> message list \<Rightarrow> py_error + message list" where
  "progress_report frame_idx total_frames msgs =
     (if frame_idx mod max 1 (total_frames div 10) = 0 then
        (case py_truediv frame_idx total_frames of
           Inl e \<Rightarrow> Inl e
         | Inr percent \<Rightarrow> Inr (msgs @ [Processing frame_idx total_frames]))
      else Inr msgs)"

subsection \<open>The loop and the run (lines 64 to 160)\<close>

text \<open>
  The loop state: the frames not yet read, the two writers and the lines printed.  The
  loop \<open>for frame_idx in range(total_frames)\<close> stops at the frame count or at the first
  failed read.
\<close>

type_synonym rot_state =
  "bgr_frame list \<times> bgr_frame writer \<times> bgr_frame writer \<times> message list"

fun rotation_loop ::
  "warp_fn \<Rightarrow> int \<Rightarrow> int \<Rightarrow> int \<Rightarrow> real \<Rightarrow> int \<Rightarrow> bgr_frame list
     \<Rightarrow> bgr_frame writer \<Rightarrow> bgr_frame writer \<Rightarrow> message list \<Rightarrow> py_error + rot_state" where
  "rotation_loop warp width height total_frames final_angle frame_idx [] out_normal out_scaled msgs =
     Inr ([], out_normal, out_scaled, msgs)"
| "rotation_loop warp width height total_frames final_angle frame_idx (frame # rest)
       out_normal out_scaled msgs =
     (if frame_idx < total_frames then
        (case rotate_frame warp width height total_frames final_angle frame_idx frame of
           Inl e \<Rightarrow> Inl e
         | Inr (rotated_frame, rotated_scaled_frame) \<Rightarrow>
             (case progress_report frame_idx total_frames msgs of
                Inl e \<Rightarrow> Inl e
              | Inr msgs' \<Rightarrow>
                  rotation_loop warp width height total_frames final_angle (frame_idx + 1) rest
                    (wr_write out_normal rotated_frame)
                    (wr_write out_scaled rotated_scaled_frame) msgs'))
      else Inr (frame # rest, out_normal, out_scaled, msgs))"

text \<open>Lines 101 to 160: the loop, the releases and the two closing lines.\<close>

definition rotation_run ::
  "warp_fn \<Rightarrow> video \<Rightarrow> real \<Rightarrow> capture \<Rightarrow> bgr_frame writer list
     \<Rightarrow> bgr_frame writer \<Rightarrow> bgr_frame writer \<Rightarrow> message list \<Rightarrow> py_error + bgr_frame run" where
  "rotation_run warp v final_angle cap earlier out_normal out_scaled msgs =
     (case rotation_loop warp (v_width v) (v_height v) (v_frame_count v) final_angle 0
             (cap_pending cap) out_normal out_scaled msgs of
        Inl e \<Rightarrow> Inl e
      | Inr (pending, out_normal', out_scaled', msgs') \<Rightarrow>
          Inr \<lparr>run_result = Some True,
               run_cap = Some (cap_release (cap\<lparr>cap_pending := pending\<rparr>)),
               run_writers = earlier @ [wr_release out_normal', wr_release out_scaled'],
               run_log = msgs' @ [SavedNormal (wr_path out_normal'),
                                 SavedScaled (wr_path out_scaled')]\<rparr>)"

definition apply_gradual_rotation ::
  "warp_fn \<Rightarrow> sink_env \<Rightarrow> video option \<Rightarrow> string \<Rightarrow> string \<Rightarrow> real
     \<Rightarrow> py_error + bgr_frame run" where
  "apply_gradual_rotation warp env source output_path_normal output_path_scaled final_angle =
     (case source of
        None \<Rightarrow>
          Inr \<lparr>run_result = Some False, run_cap = None, run_writers = [],
               run_log = [ErrCannotOpen]\<rparr>
      | Some v \<Rightarrow>
          (let cap = VideoCapture v;
               fps = v_fps v;
               width = v_width v;
               height = v_height v;
               total_frames = v_frame_count v;
               msgs = [VideoInfo width height fps total_frames];
               out_normal = VideoWriter env output_path_normal ''mp4v'' fps (width, height) True;
               out_scaled = VideoWriter env output_path_scaled ''mp4v'' fps (width, height) True
           in if \<not> (wr_opened out_normal \<and> wr_opened out_scaled) then
                (let msgs1 = msgs @ [WarnTryingXVID];
                     old_normal = wr_release out_normal;
                     old_scaled = wr_release out_scaled;
                     path_normal = py_replace ''.mp4'' ''.avi'' output_path_normal;
                     path_scaled = py_replace ''.mp4'' ''.avi'' output_path_scaled;
                     out_normal2 = VideoWriter env path_normal ''XVID'' fps (width, height) True;
                     out_scaled2 = VideoWriter env path_scaled ''XVID'' fps (width, height) True
                 in if \<not> (wr_opened out_normal2 \<and> wr_opened out_scaled2) then
                      Inr \<lparr>run_result = Some False, run_cap = Some cap,
                           run_writers = [old_normal, old_scaled, out_normal2, out_scaled2],
                           run_log = msgs1 @ [ErrNoCodec]\<rparr>
                    else rotation_run warp v final_angle cap [old_normal, old_scaled]
                           out_normal2 out_scaled2 msgs1)
              else rotation_run warp v final_angle cap [] out_normal out_scaled msgs))"

text \<open>The image of a point under an affine matrix.\<close>

definition affine_apply :: "affine \<Rightarrow> real \<times> real \<Rightarrow> real \<times> real" where
  "affine_apply M p =
     (case M of ((a, b, c), (d, e, f)) \<Rightarrow>
      case p of (x, y) \<Rightarrow> (a * x + b * y + c, d * x + e * y + f))"

section \<open>Properties of the binary64 rounding\<close>

lemma float_exponent_bounds:
  assumes "x \<noteq> 0"
  shows "2 powi float_exponent x \<le> \<bar>x\<bar> \<and> \<bar>x\<bar> < 2 powi (float_exponent x + 1)"
proof (cases "1 \<le> \<bar>x\<bar>")
  case True
  define n where "n = \<lfloor>\<bar>x\<bar>\<rfloor>"
  have n1: "1 \<le> n" using True by (simp add: n_def le_floor_iff)
  then have n0: "0 < n" by simp
  have b1: "1 \<le> bitlen n" using n0 by (auto simp: bitlen_alt_def)
  have e: "float_exponent x = bitlen n - 1"
    using True by (simp add: float_exponent_def n_def)
  from bitlen_bounds [OF n0] have lo: "2 ^ nat (bitlen n - 1) \<le> n" and hi: "n < 2 ^ nat (bitlen n)"
    by simp_all
  have "real_of_int (2 ^ nat (bitlen n - 1)) \<le> real_of_int n"
    using lo by (simp only: of_int_le_iff)
  also have "real_of_int n \<le> \<bar>x\<bar>" by (simp add: n_def)
  finally have l: "2 powi (bitlen n - 1) \<le> \<bar>x\<bar>"
    using b1 by (simp add: power_int_def)
  have "n + 1 \<le> 2 ^ nat (bitlen n)" using hi by simp
  then have "real_of_int (n + 1) \<le> real_of_int (2 ^ nat (bitlen n))"
    by (simp only: of_int_le_iff)
  moreover have "\<bar>x\<bar> < real_of_int (n + 1)"
    by (simp add: n_def)
  ultimately have u: "\<bar>x\<bar> < 2 powi (bitlen n)"
    using b1 by (simp add: power_int_def)
  show ?thesis using l u by (simp add: e)
next
  case False
  define y where "y = 1 / \<bar>x\<bar>"
  define c where "c = \<lceil>y\<rceil>"
  define k where "k = bitlen (c - 1)"
  have xpos: "0 < \<bar>x\<bar>" using assms by simp
  have y1: "1 < y" using False xpos by (simp add: y_def)
  have c2: "2 \<le> c" using y1 unfolding c_def by linarith
  then have c0: "0 < c - 1" by simp
  have k1: "1 \<le> k" using c0 by (auto simp: k_def bitlen_alt_def)
  have e: "float_exponent x = - k"
    using False by (simp add: float_exponent_def k_def c_def y_def)
  from bitlen_bounds [OF c0] have lo: "2 ^ nat (k - 1) \<le> c - 1" and hi: "c - 1 < 2 ^ nat k"
    by (simp_all add: k_def)
  have ck: "c \<le> 2 ^ nat k" using hi by simp
  have "y \<le> real_of_int c" by (simp add: c_def)
  also have "real_of_int c \<le> real_of_int (2 ^ nat k)"
    using ck by (simp only: of_int_le_iff)
  also have "real_of_int (2 ^ nat k) = 2 ^ nat k" by simp
  finally have yk: "y \<le> 2 ^ nat k" .
  have "(2::real) ^ nat (k - 1) = real_of_int (2 ^ nat (k - 1))" by simp
  also have "\<dots> \<le> real_of_int (c - 1)"
    using lo by (simp only: of_int_le_iff)
  also have "real_of_int (c - 1) < y" unfolding c_def by linarith
  finally have ky: "2 ^ nat (k - 1) < y" .
  have p: "(2::real) powi (- k) = 1 / 2 ^ nat k"
    using k1 by (simp add: power_int_def field_simps)
  have q: "(2::real) powi (- k + 1) = 1 / 2 ^ nat (k - 1)"
    using k1 by (simp add: power_int_def field_simps nat_diff_distrib)
  have l: "2 powi (- k) \<le> \<bar>x\<bar>"
    unfolding p using yk xpos by (simp add: y_def field_simps)
  have u: "\<bar>x\<bar> < 2 powi (- k + 1)"
    unfolding q using ky xpos by (simp add: y_def field_simps)
  show ?thesis using l u by (simp add: e)
qed


lemma round_half_even_near: "\<bar>real_of_int (round_half_even t) - t\<bar> \<le> 1 / 2"
proof -
  have "real_of_int \<lfloor>t\<rfloor> \<le> t" and "t < real_of_int \<lfloor>t\<rfloor> + 1"
    by linarith+
  then show ?thesis
    by (auto simp: round_half_even_def Let_def)
qed

text \<open>
  The result of \<open>rnd64\<close> is an integer of at most 53 bits times a power of two, and it
  is within half a unit in the last place of its argument.
\<close>

lemma rnd64_significand:
  assumes "x \<noteq> 0"
  shows "rnd64 x = real_of_int (round_half_even (x / 2 powi (float_exponent x - 52)))
                     * 2 powi (float_exponent x - 52)"
    and "\<bar>round_half_even (x / 2 powi (float_exponent x - 52))\<bar> \<le> 2 ^ 53"
proof -
  define e where "e = float_exponent x"
  define q :: real where "q = 2 powi (e - 52)"
  define r where "r = round_half_even (x / q)"
  have q0: "0 < q" by (simp add: q_def)
  show "rnd64 x = real_of_int (round_half_even (x / 2 powi (float_exponent x - 52)))
                     * 2 powi (float_exponent x - 52)"
    using assms by (simp add: rnd64_def Let_def)
  from float_exponent_bounds [OF assms] have "\<bar>x\<bar> < 2 powi (e + 1)"
    by (simp add: e_def)
  also have "(2::real) powi (e + 1) = 2 ^ 53 * q"
    by (simp add: q_def power_int_diff power_int_add)
  finally have "\<bar>x / q\<bar> < 2 ^ 53"
    using q0 by (simp add: field_simps abs_mult)
  moreover have "\<bar>real_of_int r - x / q\<bar> \<le> 1 / 2"
    unfolding r_def by (rule round_half_even_near)
  ultimately have "\<bar>real_of_int r\<bar> < 2 ^ 53 + 1" by linarith
  then have "\<bar>r\<bar> < 2 ^ 53 + 1"
    by (metis (mono_tags) of_int_abs of_int_less_iff of_int_numeral of_int_power of_int_add of_int_1)
  then show "\<bar>round_half_even (x / 2 powi (float_exponent x - 52))\<bar> \<le> 2 ^ 53"
    by (simp add: r_def q_def e_def)
qed

lemma rnd64_error: "\<bar>rnd64 x - x\<bar> \<le> 2 powi (float_exponent x - 53)"
proof (cases "x = 0")
  case True
  then show ?thesis by (simp add: rnd64_def)
next
  case False
  define q :: real where "q = 2 powi (float_exponent x - 52)"
  define r where "r = round_half_even (x / q)"
  have q0: "0 < q" by (simp add: q_def)
  have "rnd64 x - x = (real_of_int r - x / q) * q"
    using False q0 by (simp add: rnd64_def Let_def q_def r_def field_simps)
  then have "\<bar>rnd64 x - x\<bar> = \<bar>real_of_int r - x / q\<bar> * q"
    using q0 by (simp add: abs_mult)
  also have "\<dots> \<le> (1 / 2) * q"
    using q0 round_half_even_near [of "x / q"] by (simp add: r_def)
  also have "(1 / 2) * q = 2 powi (float_exponent x - 53)"
    by (simp add: q_def power_int_diff)
  finally show ?thesis .
qed

lemma rnd64_0: "rnd64 0 = 0"
  by (simp add: rnd64_def)

section \<open>Properties of the contrast adjuster\<close>

lemma sample_pipeline:
  "trunc_to_uint8 (min (max (alpha * (real (unat s) - m) + m) 0) 255) = spec_sample alpha m s"
  by (auto simp: trunc_to_uint8_def spec_sample_def clamp_def min_def max_def)

lemma adjust_contrast_samplewise:
  "adjust_contrast alpha gray = map (map (spec_sample alpha (np_mean gray))) gray"
  by (simp add: adjust_contrast_def Let_def astype_uint8_def np_clip_def arr_add_def
      arr_scale_def arr_sub_def astype_float_def sample_pipeline [simplified] comp_def)

lemma sample_le_255: "real (unat (s :: uint8)) \<le> 255"
proof -
  have "unat s < 256"
    using unsigned_less [of s, where ?'a = nat] by simp
  then have "unat s \<le> 255" by simp
  then have "real (unat s) \<le> real 255" by (rule of_nat_mono)
  then show ?thesis by simp
qed

lemma identity_sample: "spec_sample 1 m s = s"
proof -
  define x where "x = real (unat s)"
  have x0: "0 \<le> x" unfolding x_def by (rule of_nat_0_le_iff)
  have x255: "x \<le> 255" unfolding x_def by (rule sample_le_255)
  have fl: "\<lfloor>x\<rfloor> = int (unat s)" unfolding x_def by (rule floor_of_nat)
  have "spec_sample 1 m s = word_of_int \<lfloor>clamp (1 * (x - m) + m) 0 255\<rfloor>"
    unfolding spec_sample_def x_def ..
  also have "\<dots> = word_of_int (int (unat s))"
    using x0 x255 by (simp add: clamp_def fl)
  also have "\<dots> = s" by simp
  finally show ?thesis .
qed

lemma adjust_identity: "adjust_contrast 1 gray = gray"
  by (simp add: adjust_contrast_samplewise identity_sample map_idI)

lemma dims_adjust_contrast: "dims (adjust_contrast alpha gray) = dims gray"
  by (simp add: adjust_contrast_samplewise dims_def comp_def)

lemma dims_cvtColor: "dims (cvtColor_BGR2GRAY luma frame) = dims frame"
  by (simp add: cvtColor_BGR2GRAY_def dims_def comp_def)

lemma contrast_frame_eq:
  "n \<noteq> 0 \<Longrightarrow> contrast_frame luma mode n i frame =
     Inr (adjust_contrast (contrast_alpha mode (real_of_int i / real_of_int n))
            (cvtColor_BGR2GRAY luma frame))"
  by (simp add: contrast_frame_def py_truediv_def)

text \<open>
  The loop writes, for the \<open>k\<close>-th frame read, the transform of that frame alone, with
  the progress \<open>(idx + k) / n\<close>.
\<close>

lemma contrast_loop_eq:
  "n \<noteq> 0 \<Longrightarrow>
   contrast_loop luma mode n idx frames out =
     Inr (if wr_opened out
          then out\<lparr>wr_frames := wr_frames out @
                 map (\<lambda>k. adjust_contrast
                             (contrast_alpha mode (real_of_int (idx + int k) / real_of_int n))
                             (cvtColor_BGR2GRAY luma (frames ! k)))
                     [0..<length frames]\<rparr>
          else out)"
proof (induction frames arbitrary: idx out)
  case Nil
  then show ?case by simp
next
  case (Cons f fs)
  show ?case
    using Cons.prems
    by (simp add: contrast_frame_eq Cons.IH wr_write_def map_upt_Suc add.assoc
        del: upt_Suc)
qed

subsection \<open>The values computed, in binary64\<close>

lemma spec_mean_f64_eq: "spec_mean_f64 g = np_mean_f64 g"
proof -
  have r: "(\<Sum>s\<leftarrow>row. real (unat s)) = real (sum_list (map unat row))" for row :: "uint8 list"
    by (induction row) simp_all
  have a: "(\<Sum>row\<leftarrow>g. \<Sum>s\<leftarrow>row. real (unat s)) = real (sum_list (map unat (concat g)))"
    by (induction g) (simp_all add: r [simplified])
  have b: "(\<Sum>row\<leftarrow>g. length row) = length (concat g)"
    by (simp add: length_concat)
  show ?thesis
    unfolding spec_mean_f64_def np_mean_f64_def a b ..
qed

lemma sample_pipeline_f64:
  "trunc_to_uint8 (min (max (rnd64 (rnd64 (alpha * rnd64 (real (unat s) - m)) + m)) 0) 255)
     = spec_sample_f64 alpha m s"
  by (auto simp: trunc_to_uint8_def spec_sample_f64_def clamp_def min_def max_def)

lemma adjust_contrast_f64_samplewise:
  "adjust_contrast_f64 alpha gray = map (map (spec_sample_f64 alpha (np_mean_f64 gray))) gray"
  by (simp add: adjust_contrast_f64_def Let_def astype_uint8_def np_clip_def arr_add_f64_def
      arr_scale_f64_def arr_sub_f64_def astype_float_def sample_pipeline_f64 [simplified]
      comp_def)

lemma dims_adjust_contrast_f64: "dims (adjust_contrast_f64 alpha gray) = dims gray"
  by (simp add: adjust_contrast_f64_samplewise dims_def comp_def)

lemma contrast_frame_f64_eq:
  "n \<noteq> 0 \<Longrightarrow> contrast_frame_f64 msin luma mode n i frame =
     Inr (adjust_contrast_f64
            (contrast_alpha_f64 msin mode (rnd64 (real_of_int i / real_of_int n)))
            (cvtColor_BGR2GRAY luma frame))"
  by (simp add: contrast_frame_f64_def float_truediv_def)

lemma linear_alpha_f64:
  "contrast_alpha_f64 msin ''linear'' p =
     rnd64 (rnd64 0.8 + rnd64 (rnd64 (1.5 - rnd64 0.8) * p))"
  by (simp add: contrast_alpha_f64_def)

lemma contrast_loop_f64_eq:
  "n \<noteq> 0 \<Longrightarrow>
   contrast_loop_f64 msin luma mode n idx frames out =
     Inr (if wr_opened out
          then out\<lparr>wr_frames := wr_frames out @
                 map (\<lambda>k. adjust_contrast_f64
                             (contrast_alpha_f64 msin mode
                                (rnd64 (real_of_int (idx + int k) / real_of_int n)))
                             (cvtColor_BGR2GRAY luma (frames ! k)))
                     [0..<length frames]\<rparr>
          else out)"
proof (induction frames arbitrary: idx out)
  case Nil
  then show ?case by simp
next
  case (Cons f fs)
  show ?case
    using Cons.prems
    by (simp add: contrast_frame_f64_eq Cons.IH wr_write_def map_upt_Suc add.assoc
        del: upt_Suc)
qed

lemma process_video_f64_eq:
  "v_frame_count v \<noteq> 0 \<Longrightarrow>
   process_video_f64 msin luma env (Some v) output_path mode =
     Inr \<lparr>run_result = None,
          run_cap = Some \<lparr>cap_opened = False, cap_pending = []\<rparr>,
          run_writers =
            [\<lparr>wr_path = output_path, wr_fourcc = ''mp4v'', wr_fps = v_fps v,
              wr_size = (v_width v, v_height v), wr_is_color = False, wr_opened = False,
              wr_frames =
                (if env output_path ''mp4v'' then spec_contrast_frames msin luma mode v
                 else [])\<rparr>],
          run_log = [Finished mode output_path]\<rparr>"
  by (simp add: process_video_f64_def Let_def contrast_loop_f64_eq VideoCapture_def
      VideoWriter_def cap_release_def wr_release_def spec_contrast_frames_def
      adjust_contrast_f64_samplewise spec_mean_f64_eq)

text \<open>
  Frame 4 of a clip of 10 frames in linear mode, with the samples 248 and 23: the
  progress is the binary64 number nearest 0.4, the factor is just above 1.08, the mean is
  135.5, and the second sample comes out just below 14.
\<close>

lemma ex_alpha_f64:
  "rnd64 (rnd64 0.8 + rnd64 (rnd64 (1.5 - rnd64 0.8) * rnd64 (4 / 10)))
     = 607985949695017 / 562949953421312"
  by code_simp

lemma ex_mean_f64: "spec_mean_f64 [[248, 23]] = 271 / 2"
  by code_simp

lemma ex_samples_f64:
  "spec_sample_f64 (607985949695017 / 562949953421312) (271 / 2) 248 = 255"
  "spec_sample_f64 (607985949695017 / 562949953421312) (271 / 2) 23 = 13"
  by code_simp+

lemma ex_gray: "cvtColor_BGR2GRAY luma_fixed [[(248, 248, 248), (23, 23, 23)]] = [[248, 23]]"
  by (simp add: cvtColor_BGR2GRAY_def luma_fixed_def)

text \<open>A clip of two frames in linear mode: the factors are 0.8 (rounded) and about 1.15.\<close>

lemma ex2_alpha_f64:
  "rnd64 (rnd64 0.8 + rnd64 (rnd64 (1.5 - rnd64 0.8) * rnd64 (0 / 2)))
     = 3602879701896397 / 4503599627370496"
  "rnd64 (rnd64 0.8 + rnd64 (rnd64 (1.5 - rnd64 0.8) * rnd64 (1 / 2)))
     = 2589569785738035 / 2251799813685248"
  by code_simp+

lemma ex2_mean_f64: "spec_mean_f64 [[100, 7]] = 107 / 2"
  by code_simp

lemma ex2_samples_f64:
  "spec_sample_f64 (3602879701896397 / 4503599627370496) (271 / 2) 248 = 225"
  "spec_sample_f64 (3602879701896397 / 4503599627370496) (271 / 2) 23 = 45"
  "spec_sample_f64 (2589569785738035 / 2251799813685248) (107 / 2) 100 = 106"
  "spec_sample_f64 (2589569785738035 / 2251799813685248) (107 / 2) 7 = 0"
  by code_simp+

lemma ex2_gray: "cvtColor_BGR2GRAY luma_fixed [[(100, 100, 100), (7, 7, 7)]] = [[100, 7]]"
  by (simp add: cvtColor_BGR2GRAY_def luma_fixed_def)

text \<open>
  C1.  For every grayscale frame and every contrast factor, the contrast adjuster maps
  every sample \<open>s\<close> to \<open>clamp(alpha * (s - m) + m, 0, 255)\<close> truncated to 8 bits, where
  \<open>m\<close> is the mean of the samples of that same frame and the arithmetic is that of the
  program (binary64, every operation rounded); the output has the rows and the row
  lengths of the input.  The frame the loop body produces for an input frame is this map
  applied to the grayscale of that frame, with the mean of that frame and the factor of
  the mode at the rounded progress, and a run writes exactly these frames, one per frame
  read, in order.
\<close>

theorem contrast_adjuster_samples:
  "adjust_contrast_f64 alpha gray = map (map (spec_sample_f64 alpha (spec_mean_f64 gray))) gray
   \<and> dims (adjust_contrast_f64 alpha gray) = dims gray
   \<and> (n \<noteq> 0 \<longrightarrow>
        contrast_frame_f64 msin luma mode n i frame =
          Inr (map (map (spec_sample_f64
                           (contrast_alpha_f64 msin mode (rnd64 (real_of_int i / real_of_int n)))
                           (spec_mean_f64 (cvtColor_BGR2GRAY luma frame))))
                 (cvtColor_BGR2GRAY luma frame)))
   \<and> (v_frame_count v \<noteq> 0 \<longrightarrow>
        (\<exists>r w. process_video_f64 msin luma env (Some v) output_path mode = Inr r
               \<and> run_writers r = [w]
               \<and> wr_frames w =
                   (if env output_path ''mp4v'' then spec_contrast_frames msin luma mode v
                    else [])))"
  by (simp add: contrast_frame_f64_eq spec_mean_f64_eq dims_adjust_contrast_f64
      adjust_contrast_f64_samplewise [symmetric] process_video_f64_eq)

theorem contrast_adjuster_samples_witness:
  "(10::int) \<noteq> 0
   \<and> contrast_frame_f64 sin luma_fixed ''linear'' 10 4 [[(248, 248, 248), (23, 23, 23)]]
       = Inr [[255, 13]]
   \<and> (\<exists>r w. process_video_f64 sin luma_fixed (\<lambda>path fourcc. True)
               (Some \<lparr>v_fps = 30, v_width = 2, v_height = 1, v_frame_count = 2,
                      v_frames = [[[(248, 248, 248), (23, 23, 23)]],
                                  [[(100, 100, 100), (7, 7, 7)]]]\<rparr>)
               ''out.mp4'' ''linear'' = Inr r
          \<and> run_writers r = [w]
          \<and> wr_frames w = [[[225, 45]], [[106, 0]]])"
proof -
  let ?V = "\<lparr>v_fps = 30, v_width = 2, v_height = 1, v_frame_count = 2,
             v_frames = [[[(248, 248, 248), (23, 23, 23)]], [[(100, 100, 100), (7, 7, 7)]]]\<rparr>"
  have a: "contrast_alpha_f64 sin ''linear'' (rnd64 (2 / 5)) = 607985949695017 / 562949953421312"
    using ex_alpha_f64 by (simp add: linear_alpha_f64)
  have a0: "contrast_alpha_f64 sin ''linear'' 0 = 3602879701896397 / 4503599627370496"
    using ex2_alpha_f64(1) by (simp add: linear_alpha_f64 rnd64_0)
  have a1: "contrast_alpha_f64 sin ''linear'' (rnd64 (1 / 2)) = 2589569785738035 / 2251799813685248"
    using ex2_alpha_f64(2) by (simp add: linear_alpha_f64)
  have f: "contrast_frame_f64 sin luma_fixed ''linear'' 10 4 [[(248, 248, 248), (23, 23, 23)]]
             = Inr [[255, 13]]"
    using contrast_adjuster_samples [where n = 10 and msin = sin and luma = luma_fixed
        and mode = "''linear''" and i = 4 and frame = "[[(248, 248, 248), (23, 23, 23)]]"]
    by (simp add: a ex_gray ex_mean_f64 ex_samples_f64)
  have w: "spec_contrast_frames sin luma_fixed ''linear'' ?V = [[[225, 45]], [[106, 0]]]"
    by (simp add: spec_contrast_frames_def upt_conv_Cons rnd64_0 a0 a1 ex_gray ex2_gray
        ex_mean_f64 ex2_mean_f64 ex2_samples_f64)
  have n: "v_frame_count ?V \<noteq> 0" by simp
  have "\<exists>r w. process_video_f64 sin luma_fixed (\<lambda>path fourcc. True) (Some ?V)
               ''out.mp4'' ''linear'' = Inr r
          \<and> run_writers r = [w]
          \<and> wr_frames w = [[[225, 45]], [[106, 0]]]"
    using contrast_adjuster_samples [where v = ?V and msin = sin and luma = luma_fixed
        and mode = "''linear''" and env = "\<lambda>path fourcc. True" and output_path = "''out.mp4''"]
      n unfolding w by simp
  with f show ?thesis by simp
qed

text \<open>
  C4.  The contrast factor is a function of the mode and the progress only.  In linear
  mode it is \<open>0.8 + (1.5 - 0.8) * progress\<close>, which is 0.8 at progress 0, 1.5 at
  progress 1 and increasing in between; in sine mode it is
  \<open>1.15 + 0.35 * sin (2 * pi * progress * 2)\<close>; in any other mode it is 1.
\<close>

theorem contrast_alpha_by_mode:
  "contrast_alpha ''linear'' p = 0.8 + (1.5 - 0.8) * p
   \<and> contrast_alpha ''linear'' 0 = 0.8
   \<and> contrast_alpha ''linear'' 1 = 1.5
   \<and> (p < q \<longrightarrow> contrast_alpha ''linear'' p < contrast_alpha ''linear'' q)
   \<and> (p \<le> q \<longrightarrow> contrast_alpha ''linear'' p \<le> contrast_alpha ''linear'' q)
   \<and> contrast_alpha ''sine'' p = 1.15 + 0.35 * sin (2 * pi * p * 2)
   \<and> (m \<noteq> ''linear'' \<and> m \<noteq> ''sine'' \<longrightarrow> contrast_alpha m p = 1.0)"
  by (simp add: contrast_alpha_def)

theorem contrast_alpha_by_mode_witness:
  "contrast_alpha ''linear'' (1/4) < contrast_alpha ''linear'' (1/2)
   \<and> contrast_alpha ''linear'' (1/4) \<le> contrast_alpha ''linear'' (1/2)
   \<and> contrast_alpha ''none'' (1/4) = 1"
  using contrast_alpha_by_mode [of "1/4" "1/2" "''none''"] by simp

text \<open>
  C5.  With the factor 1 the contrast adjuster returns its input frame unchanged, so
  applying it twice returns the input frame as well; 1 is the factor of every mode other
  than linear and sine, at every progress.
\<close>

theorem contrast_identity:
  "adjust_contrast 1 gray = gray
   \<and> adjust_contrast 1 (adjust_contrast 1 gray) = gray
   \<and> (mode \<noteq> ''linear'' \<and> mode \<noteq> ''sine'' \<longrightarrow>
        contrast_alpha mode p = 1
        \<and> adjust_contrast (contrast_alpha mode p) gray = gray
        \<and> adjust_contrast (contrast_alpha mode q) (adjust_contrast (contrast_alpha mode p) gray)
            = gray)"
  by (simp add: adjust_identity contrast_alpha_def)

theorem contrast_identity_witness:
  "''none'' \<noteq> ''linear'' \<and> ''none'' \<noteq> ''sine''
   \<and> adjust_contrast (contrast_alpha ''none'' (1/2)) [[0, 255], [7, 128]] = [[0, 255], [7, 128]]
   \<and> adjust_contrast (contrast_alpha ''none'' (3/4))
        (adjust_contrast (contrast_alpha ''none'' (1/2)) [[0, 255], [7, 128]])
       = [[0, 255], [7, 128]]"
  using contrast_identity [of "[[0, 255], [7, 128]]" "''none''" "1/2" "3/4"]
  by (simp add: contrast_alpha_def)

section \<open>Properties of the rotation-scaler\<close>

lemma abs_sin_abs: "\<bar>sin \<bar>x :: real\<bar>\<bar> = \<bar>sin x\<bar>"
  by (cases "0 \<le> x") (simp_all add: abs_if)

lemma abs_cos_sin_ge_1: "1 \<le> \<bar>cos (x::real)\<bar> + \<bar>sin x\<bar>"
proof -
  have "(\<bar>cos x\<bar> + \<bar>sin x\<bar>)\<^sup>2 = 1 + 2 * \<bar>cos x\<bar> * \<bar>sin x\<bar>"
    by (simp add: power2_sum)
  then have "1\<^sup>2 \<le> (\<bar>cos x\<bar> + \<bar>sin x\<bar>)\<^sup>2" by simp
  then show ?thesis
    by (rule power2_le_imp_le) simp
qed

lemma scaling_factor_unfold:
  "scaling_factor W H a =
     (if py_mod a 90 \<noteq> 0
      then min (real_of_int W / (real_of_int W * \<bar>cos (a * pi / 180)\<bar> + real_of_int H * \<bar>sin (a * pi / 180)\<bar>))
               (real_of_int H / (real_of_int W * \<bar>sin (a * pi / 180)\<bar> + real_of_int H * \<bar>cos (a * pi / 180)\<bar>))
      else 1)"
  unfolding scaling_factor_def Let_def abs_sin_abs cos_abs_real by simp

lemma fit_bounds:
  fixes W H c s :: real
  assumes W: "0 < W" and H: "0 < H" and c: "0 \<le> c" and s: "0 \<le> s" and cs: "1 \<le> c + s"
  defines "k \<equiv> min (W / (W * c + H * s)) (H / (W * s + H * c))"
  shows "0 < k \<and> k \<le> 1 \<and> k * (W * c + H * s) \<le> W \<and> k * (W * s + H * c) \<le> H"
proof -
  have nw: "0 < W * c + H * s"
  proof (cases "0 < c")
    case True
    then have "0 < W * c" using W by simp
    moreover have "0 \<le> H * s" using H s by simp
    ultimately show ?thesis by linarith
  next
    case False
    then have "0 < s" using c cs by linarith
    then have "0 < H * s" using H by simp
    moreover have "0 \<le> W * c" using W c by simp
    ultimately show ?thesis by linarith
  qed
  have nh: "0 < W * s + H * c"
  proof (cases "0 < c")
    case True
    then have "0 < H * c" using H by simp
    moreover have "0 \<le> W * s" using W s by simp
    ultimately show ?thesis by linarith
  next
    case False
    then have "0 < s" using c cs by linarith
    then have "0 < W * s" using W by simp
    moreover have "0 \<le> H * c" using H c by simp
    ultimately show ?thesis by linarith
  qed
  have pos: "0 < k"
    unfolding k_def using W H nw nh by simp
  have "k \<le> W / (W * c + H * s)" unfolding k_def by simp
  then have fw: "k * (W * c + H * s) \<le> W"
    using nw by (simp add: pos_le_divide_eq)
  have "k \<le> H / (W * s + H * c)" unfolding k_def by simp
  then have fh: "k * (W * s + H * c) \<le> H"
    using nh by (simp add: pos_le_divide_eq)
  have le1: "k \<le> 1"
  proof (rule ccontr)
    assume "\<not> k \<le> 1"
    then have k1: "1 < k" by simp
    have "W * c + H * s < k * (W * c + H * s)" using k1 nw by simp
    then have a: "W * c + H * s < W" using fw by linarith
    have "W * s + H * c < k * (W * s + H * c)" using k1 nh by simp
    then have b: "W * s + H * c < H" using fh by linarith
    have "(W + H) * (c + s) < W + H" using a b by (simp add: algebra_simps)
    moreover have "(W + H) * 1 \<le> (W + H) * (c + s)"
      using cs W H by (intro mult_left_mono) simp_all
    ultimately show False by simp
  qed
  show ?thesis using pos le1 fw fh by simp
qed

lemma py_mod_zero_iff: "py_mod a 90 = 0 \<longleftrightarrow> (\<exists>j::int. a = 90 * real_of_int j)"
proof
  assume "py_mod a 90 = 0"
  then have "a = 90 * real_of_int \<lfloor>a / 90\<rfloor>" by (simp add: py_mod_def)
  then show "\<exists>j::int. a = 90 * real_of_int j" ..
next
  assume "\<exists>j::int. a = 90 * real_of_int j"
  then obtain j :: int where "a = 90 * real_of_int j" ..
  then show "py_mod a 90 = 0" by (simp add: py_mod_def)
qed


lemma rotated_offset:
  "affine_apply (getRotationMatrix2D (cx, cy) a k) (real_of_int cx + dx, real_of_int cy + dy) =
     (real_of_int cx + (k * cos (a * pi / 180) * dx + k * sin (a * pi / 180) * dy),
      real_of_int cy + (k * cos (a * pi / 180) * dy - k * sin (a * pi / 180) * dx))"
  by (simp add: affine_apply_def getRotationMatrix2D_def Let_def algebra_simps)

lemma offset_bound:
  fixes k c s dx dy w h :: real
  assumes k: "0 \<le> k" and dx: "\<bar>dx\<bar> \<le> w / 2" and dy: "\<bar>dy\<bar> \<le> h / 2"
    and fit: "k * (w * \<bar>c\<bar> + h * \<bar>s\<bar>) \<le> w"
  shows "\<bar>k * c * dx + k * s * dy\<bar> \<le> w / 2" and "\<bar>k * c * dx - k * s * dy\<bar> \<le> w / 2"
proof -
  have "(k * \<bar>c\<bar>) * \<bar>dx\<bar> \<le> (k * \<bar>c\<bar>) * (w / 2)"
    using k dx by (intro mult_left_mono) simp_all
  then have a: "\<bar>k * c * dx\<bar> \<le> k * \<bar>c\<bar> * (w / 2)"
    using k by (simp add: abs_mult)
  have "(k * \<bar>s\<bar>) * \<bar>dy\<bar> \<le> (k * \<bar>s\<bar>) * (h / 2)"
    using k dy by (intro mult_left_mono) simp_all
  then have b: "\<bar>k * s * dy\<bar> \<le> k * \<bar>s\<bar> * (h / 2)"
    using k by (simp add: abs_mult)
  have c: "k * \<bar>c\<bar> * (w / 2) + k * \<bar>s\<bar> * (h / 2) \<le> w / 2"
    using fit by (simp add: algebra_simps)
  show "\<bar>k * c * dx + k * s * dy\<bar> \<le> w / 2"
    using a b c by linarith
  show "\<bar>k * c * dx - k * s * dy\<bar> \<le> w / 2"
    using a b c by linarith
qed

text \<open>
  C2.  The scale-to-fit factor is 1 when the angle (in degrees) is a multiple of 90, and
  otherwise the smaller of \<open>W / (W * |cos t| + H * |sin t|)\<close> and
  \<open>H / (W * |sin t| + H * |cos t|)\<close>, where \<open>t\<close> is the angle in radians.  On a canvas of
  positive width and height and at an angle that is not a multiple of 90 degrees, the
  factor lies in (0, 1], the bounding box of the rotated and scaled rectangle is no wider
  than \<open>W\<close> and no higher than \<open>H\<close>, and every point within \<open>W / 2\<close> and \<open>H / 2\<close> of the
  centre is mapped by the rotation matrix to a point within \<open>W / 2\<close> and \<open>H / 2\<close> of the
  centre.
\<close>

theorem scale_to_fit:
  fixes W H cx cy :: int and a :: real
  shows
  "(py_mod a 90 = 0 \<longleftrightarrow> (\<exists>j::int. a = 90 * real_of_int j))
   \<and> (py_mod a 90 = 0 \<longrightarrow> scaling_factor W H a = 1.0)
   \<and> (py_mod a 90 \<noteq> 0 \<longrightarrow>
        scaling_factor W H a =
          min (real_of_int W / (real_of_int W * \<bar>cos (a * pi / 180)\<bar> + real_of_int H * \<bar>sin (a * pi / 180)\<bar>))
              (real_of_int H / (real_of_int W * \<bar>sin (a * pi / 180)\<bar> + real_of_int H * \<bar>cos (a * pi / 180)\<bar>)))
   \<and> (py_mod a 90 \<noteq> 0 \<and> 0 < W \<and> 0 < H \<longrightarrow>
        0 < scaling_factor W H a \<and> scaling_factor W H a \<le> 1
        \<and> scaling_factor W H a * (real_of_int W * \<bar>cos (a * pi / 180)\<bar> + real_of_int H * \<bar>sin (a * pi / 180)\<bar>)
            \<le> real_of_int W
        \<and> scaling_factor W H a * (real_of_int W * \<bar>sin (a * pi / 180)\<bar> + real_of_int H * \<bar>cos (a * pi / 180)\<bar>)
            \<le> real_of_int H
        \<and> (\<forall>dx dy. \<bar>dx\<bar> \<le> real_of_int W / 2 \<and> \<bar>dy\<bar> \<le> real_of_int H / 2 \<longrightarrow>
              (case affine_apply (getRotationMatrix2D (cx, cy) a (scaling_factor W H a))
                      (real_of_int cx + dx, real_of_int cy + dy) of
                 (x', y') \<Rightarrow> \<bar>x' - real_of_int cx\<bar> \<le> real_of_int W / 2
                            \<and> \<bar>y' - real_of_int cy\<bar> \<le> real_of_int H / 2)))"
proof (intro conjI impI)
  show "py_mod a 90 = 0 \<longleftrightarrow> (\<exists>j::int. a = 90 * real_of_int j)"
    by (rule py_mod_zero_iff)
  show "scaling_factor W H a = 1.0" if "py_mod a 90 = 0"
    using that by (simp add: scaling_factor_unfold)
  show "scaling_factor W H a =
          min (real_of_int W / (real_of_int W * \<bar>cos (a * pi / 180)\<bar> + real_of_int H * \<bar>sin (a * pi / 180)\<bar>))
              (real_of_int H / (real_of_int W * \<bar>sin (a * pi / 180)\<bar> + real_of_int H * \<bar>cos (a * pi / 180)\<bar>))"
    if "py_mod a 90 \<noteq> 0"
    using that by (simp add: scaling_factor_unfold)
next
  assume h: "py_mod a 90 \<noteq> 0 \<and> 0 < W \<and> 0 < H"
  define c where "c = \<bar>cos (a * pi / 180)\<bar>"
  define s where "s = \<bar>sin (a * pi / 180)\<bar>"
  define k where "k = scaling_factor W H a"
  have keq: "k = min (real_of_int W / (real_of_int W * c + real_of_int H * s))
                     (real_of_int H / (real_of_int W * s + real_of_int H * c))"
    using h unfolding k_def c_def s_def by (simp add: scaling_factor_unfold)
  have b: "0 < k \<and> k \<le> 1 \<and> k * (real_of_int W * c + real_of_int H * s) \<le> real_of_int W
           \<and> k * (real_of_int W * s + real_of_int H * c) \<le> real_of_int H"
    unfolding keq
    by (rule fit_bounds) (use h in \<open>simp_all add: c_def s_def abs_cos_sin_ge_1\<close>)
  show "0 < scaling_factor W H a" using b by (simp add: k_def)
  show "scaling_factor W H a \<le> 1" using b by (simp add: k_def)
  show "scaling_factor W H a * (real_of_int W * \<bar>cos (a * pi / 180)\<bar> + real_of_int H * \<bar>sin (a * pi / 180)\<bar>)
            \<le> real_of_int W"
    using b by (simp add: k_def c_def s_def)
  show "scaling_factor W H a * (real_of_int W * \<bar>sin (a * pi / 180)\<bar> + real_of_int H * \<bar>cos (a * pi / 180)\<bar>)
            \<le> real_of_int H"
    using b by (simp add: k_def c_def s_def)
  show "\<forall>dx dy. \<bar>dx\<bar> \<le> real_of_int W / 2 \<and> \<bar>dy\<bar> \<le> real_of_int H / 2 \<longrightarrow>
              (case affine_apply (getRotationMatrix2D (cx, cy) a (scaling_factor W H a))
                      (real_of_int cx + dx, real_of_int cy + dy) of
                 (x', y') \<Rightarrow> \<bar>x' - real_of_int cx\<bar> \<le> real_of_int W / 2
                            \<and> \<bar>y' - real_of_int cy\<bar> \<le> real_of_int H / 2)"
  proof (intro allI impI)
    fix dx dy :: real
    assume d: "\<bar>dx\<bar> \<le> real_of_int W / 2 \<and> \<bar>dy\<bar> \<le> real_of_int H / 2"
    have k0: "0 \<le> k" using b by simp
    have fw: "k * (real_of_int W * \<bar>cos (a * pi / 180)\<bar> + real_of_int H * \<bar>sin (a * pi / 180)\<bar>)
                \<le> real_of_int W"
      using b by (simp add: c_def s_def)
    have fh: "k * (real_of_int H * \<bar>cos (a * pi / 180)\<bar> + real_of_int W * \<bar>sin (a * pi / 180)\<bar>)
                \<le> real_of_int H"
      using b by (simp add: c_def s_def add.commute)
    have x: "\<bar>k * cos (a * pi / 180) * dx + k * sin (a * pi / 180) * dy\<bar> \<le> real_of_int W / 2"
      using k0 d fw by (intro offset_bound(1)) simp_all
    have y: "\<bar>k * cos (a * pi / 180) * dy - k * sin (a * pi / 180) * dx\<bar> \<le> real_of_int H / 2"
      using k0 d fh by (intro offset_bound(2)) simp_all
    show "case affine_apply (getRotationMatrix2D (cx, cy) a (scaling_factor W H a))
                      (real_of_int cx + dx, real_of_int cy + dy) of
                 (x', y') \<Rightarrow> \<bar>x' - real_of_int cx\<bar> \<le> real_of_int W / 2
                            \<and> \<bar>y' - real_of_int cy\<bar> \<le> real_of_int H / 2"
      using x y unfolding rotated_offset k_def [symmetric] by simp
  qed
qed


theorem scale_to_fit_witness:
  "py_mod 45 90 \<noteq> 0 \<and> 0 < (640::int) \<and> 0 < (480::int)
   \<and> 0 < scaling_factor 640 480 45 \<and> scaling_factor 640 480 45 \<le> 1
   \<and> py_mod 180 90 = 0 \<and> scaling_factor 640 480 180 = 1"
proof -
  have h: "py_mod 45 90 \<noteq> 0 \<and> 0 < (640::int) \<and> 0 < (480::int)"
    by (simp add: py_mod_def)
  have m: "py_mod 180 90 = 0"
    by (simp add: py_mod_def)
  have a: "0 < scaling_factor 640 480 45 \<and> scaling_factor 640 480 45 \<le> 1"
    using scale_to_fit [where a = 45 and W = 640 and H = 480 and cx = 320 and cy = 240] h
    by blast
  have b: "scaling_factor 640 480 180 = 1"
    using scale_to_fit [where a = 180 and W = 640 and H = 480 and cx = 320 and cy = 240] m
    by simp
  show ?thesis using h m a b by blast
qed

text \<open>The value on a square canvas at 45 degrees.\<close>

lemma scaling_factor_square_45: "scaling_factor 100 100 45 = 1 / sqrt 2"
proof -
  have m: "py_mod 45 90 \<noteq> 0" by (simp add: py_mod_def)
  have e: "(45::real) * pi / 180 = pi / 4" by simp
  have r: "sqrt 2 * sqrt 2 = (2::real)" by simp
  show ?thesis
    using m unfolding scaling_factor_unfold e cos_45 sin_45
    by (simp add: field_simps r)
qed

subsection \<open>The angle of every frame and the frames written\<close>

lemma rotation_progress_eq: "rotation_progress i n = Inr (spec_progress i n)"
  by (simp add: rotation_progress_def spec_progress_def float_truediv_def)

lemma rotation_angle_eq: "rotation_angle fa i n = Inr (spec_angle fa i n)"
  by (simp add: rotation_angle_def rotation_progress_eq spec_angle_def)

lemma rotate_frame_eq:
  "rotate_frame warp w h n fa i frame =
     Inr (spec_normal warp w h (spec_angle fa i n) frame,
          spec_scaled warp w h (spec_angle fa i n) frame)"
  by (simp add: rotate_frame_def rotation_angle_eq Let_def spec_normal_def spec_scaled_def)

lemma spec_angle_single: "spec_angle fa 0 1 = 0"
  by (simp add: spec_angle_def spec_progress_def rnd64_0)

lemma getRotationMatrix2D_0_1: "getRotationMatrix2D center 0 1 = identity_affine"
  by (cases center) (simp add: getRotationMatrix2D_def identity_affine_def)

lemma scaling_factor_0: "scaling_factor w h 0 = 1"
  by (simp add: scaling_factor_def py_mod_def)

lemma rotate_single_frame:
  "rotate_frame warp w h 1 fa 0 frame =
     Inr (warp frame identity_affine (w, h), warp frame identity_affine (w, h))"
  by (simp add: rotate_frame_eq spec_angle_single spec_normal_def spec_scaled_def
      getRotationMatrix2D_0_1 scaling_factor_0)

text \<open>Inside the loop the progress line never divides by zero, and the loop never raises.\<close>

lemma progress_report_ok:
  "0 \<le> i \<Longrightarrow> i < n \<Longrightarrow>
   progress_report i n msgs =
     Inr (if i mod max 1 (n div 10) = 0 then msgs @ [Processing i n] else msgs)"
  by (simp add: progress_report_def py_truediv_def)

lemma rotation_loop_no_error:
  "0 \<le> i \<Longrightarrow> \<exists>st. rotation_loop warp w h n fa i frames out_n out_s msgs = Inr st"
proof (induction frames arbitrary: i out_n out_s msgs)
  case Nil
  then show ?case by simp
next
  case (Cons f fs)
  show ?case
  proof (cases "i < n")
    case True
    have "0 \<le> i + 1" using Cons.prems by simp
    from Cons.IH [OF this] show ?thesis
      using True Cons.prems by (simp add: rotate_frame_eq progress_report_ok)
  next
    case False
    then show ?thesis by simp
  qed
qed

text \<open>
  The loop takes the first \<open>min (length frames) (n - i)\<close> frames and writes, for the
  \<open>k\<close>-th of them, the normal and the scaled variant at the angle of frame \<open>i + k\<close>.
\<close>

lemma rotation_loop_eq:
  "0 \<le> i \<Longrightarrow> wr_opened out_n \<Longrightarrow> wr_opened out_s \<Longrightarrow>
   \<exists>msgs'. rotation_loop warp w h n fa i frames out_n out_s msgs =
     Inr (drop (min (length frames) (nat (n - i))) frames,
          out_n\<lparr>wr_frames := wr_frames out_n @
             map (\<lambda>k. spec_normal warp w h (spec_angle fa (i + int k) n) (frames ! k))
                 [0..<min (length frames) (nat (n - i))]\<rparr>,
          out_s\<lparr>wr_frames := wr_frames out_s @
             map (\<lambda>k. spec_scaled warp w h (spec_angle fa (i + int k) n) (frames ! k))
                 [0..<min (length frames) (nat (n - i))]\<rparr>,
          msgs')"
proof (induction frames arbitrary: i out_n out_s msgs)
  case Nil
  then show ?case by simp
next
  case (Cons f fs)
  show ?case
  proof (cases "i < n")
    case True
    let ?on = "wr_write out_n (spec_normal warp w h (spec_angle fa i n) f)"
    let ?os = "wr_write out_s (spec_scaled warp w h (spec_angle fa i n) f)"
    let ?m = "min (length fs) (nat (n - (i + 1)))"
    let ?msgs = "if i mod max 1 (n div 10) = 0 then msgs @ [Processing i n] else msgs"
    have m: "min (length (f # fs)) (nat (n - i)) = Suc ?m"
      using True by (simp add: min_def) linarith
    have "0 \<le> i + 1" and "wr_opened ?on" and "wr_opened ?os"
      using Cons.prems by (simp_all add: wr_write_def)
    from Cons.IH [OF this, of ?msgs]
    obtain msgs' where
      "rotation_loop warp w h n fa (i + 1) fs ?on ?os ?msgs =
       Inr (drop ?m fs,
            ?on\<lparr>wr_frames := wr_frames ?on @
               map (\<lambda>k. spec_normal warp w h (spec_angle fa (i + 1 + int k) n) (fs ! k))
                   [0..<?m]\<rparr>,
            ?os\<lparr>wr_frames := wr_frames ?os @
               map (\<lambda>k. spec_scaled warp w h (spec_angle fa (i + 1 + int k) n) (fs ! k))
                   [0..<?m]\<rparr>,
            msgs')"
      by blast
    then show ?thesis
      using True Cons.prems unfolding m
      by (simp add: rotate_frame_eq progress_report_ok wr_write_def map_upt_Suc add.assoc
          del: upt_Suc)
  next
    case False
    then have "nat (n - i) = 0" by simp
    with False show ?thesis by simp
  qed
qed

text \<open>The three ways a run with an opened source goes on, by what the sinks do.\<close>

lemma rotation_primary_ok:
  assumes "env pn ''mp4v'' \<and> env ps ''mp4v''"
  shows "apply_gradual_rotation warp env (Some v) pn ps fa =
     rotation_run warp v fa (VideoCapture v) []
       (VideoWriter env pn ''mp4v'' (v_fps v) (v_width v, v_height v) True)
       (VideoWriter env ps ''mp4v'' (v_fps v) (v_width v, v_height v) True)
       [VideoInfo (v_width v) (v_height v) (v_fps v) (v_frame_count v)]"
  using assms by (simp add: apply_gradual_rotation_def Let_def VideoWriter_def)

lemma rotation_fallback_ok:
  assumes "\<not> (env pn ''mp4v'' \<and> env ps ''mp4v'')"
    and "env (py_replace ''.mp4'' ''.avi'' pn) ''XVID''
         \<and> env (py_replace ''.mp4'' ''.avi'' ps) ''XVID''"
  shows "apply_gradual_rotation warp env (Some v) pn ps fa =
     rotation_run warp v fa (VideoCapture v)
       [wr_release (VideoWriter env pn ''mp4v'' (v_fps v) (v_width v, v_height v) True),
        wr_release (VideoWriter env ps ''mp4v'' (v_fps v) (v_width v, v_height v) True)]
       (VideoWriter env (py_replace ''.mp4'' ''.avi'' pn) ''XVID'' (v_fps v)
          (v_width v, v_height v) True)
       (VideoWriter env (py_replace ''.mp4'' ''.avi'' ps) ''XVID'' (v_fps v)
          (v_width v, v_height v) True)
       [VideoInfo (v_width v) (v_height v) (v_fps v) (v_frame_count v), WarnTryingXVID]"
  using assms
  by (simp add: apply_gradual_rotation_def Let_def VideoWriter_def)

lemma rotation_fallback_fails:
  assumes "\<not> (env pn ''mp4v'' \<and> env ps ''mp4v'')"
    and "\<not> (env (py_replace ''.mp4'' ''.avi'' pn) ''XVID''
            \<and> env (py_replace ''.mp4'' ''.avi'' ps) ''XVID'')"
  shows "apply_gradual_rotation warp env (Some v) pn ps fa =
     Inr \<lparr>run_result = Some False, run_cap = Some (VideoCapture v),
          run_writers =
            [wr_release (VideoWriter env pn ''mp4v'' (v_fps v) (v_width v, v_height v) True),
             wr_release (VideoWriter env ps ''mp4v'' (v_fps v) (v_width v, v_height v) True),
             VideoWriter env (py_replace ''.mp4'' ''.avi'' pn) ''XVID'' (v_fps v)
               (v_width v, v_height v) True,
             VideoWriter env (py_replace ''.mp4'' ''.avi'' ps) ''XVID'' (v_fps v)
               (v_width v, v_height v) True],
          run_log = [VideoInfo (v_width v) (v_height v) (v_fps v) (v_frame_count v),
                     WarnTryingXVID, ErrNoCodec]\<rparr>"
  using assms
  by (simp add: apply_gradual_rotation_def Let_def VideoWriter_def)


lemma rotation_run_frames:
  assumes "wr_opened out_n" and "wr_opened out_s"
    and "wr_frames out_n = []" and "wr_frames out_s = []"
    and "cap_pending cap = v_frames v"
  shows "\<exists>r. rotation_run warp v fa cap earlier out_n out_s msgs = Inr r
             \<and> run_result r = Some True
             \<and> map wr_frames (run_writers r) =
                 map wr_frames earlier @ [spec_normal_frames warp v fa, spec_scaled_frames warp v fa]"
proof -
  from rotation_loop_eq [of 0 out_n out_s warp "v_width v" "v_height v" "v_frame_count v" fa
      "v_frames v" msgs] assms
  obtain msgs' where
    "rotation_loop warp (v_width v) (v_height v) (v_frame_count v) fa 0 (cap_pending cap)
       out_n out_s msgs =
     Inr (drop (frames_processed v) (v_frames v),
          out_n\<lparr>wr_frames := spec_normal_frames warp v fa\<rparr>,
          out_s\<lparr>wr_frames := spec_scaled_frames warp v fa\<rparr>,
          msgs')"
    by (auto simp: frames_processed_def spec_normal_frames_def spec_scaled_frames_def)
  then show ?thesis
    by (simp add: rotation_run_def wr_release_def)
qed

text \<open>
  Frame 18 of 36 at a final angle of 175: the rounded angle is just below 90, so the
  scale-to-fit factor is the one of the formula, not 1.
\<close>

lemma ex_angle_f64: "spec_angle 175 18 36 = 6333186975989759 / 70368744177664"
  by code_simp

lemma ex_angle_not_multiple: "py_mod (spec_angle 175 18 36) 90 \<noteq> 0"
proof -
  have "\<lfloor>(6333186975989759 / 70368744177664 :: real) / 90\<rfloor> = 0"
    by (simp add: floor_eq_iff)
  then show ?thesis
    by (simp add: ex_angle_f64 py_mod_def)
qed

text \<open>A clip of three frames of two pixels, turned by 0, 180 and 360 degrees.\<close>

lemma ex_angles_3: "spec_angle 360 0 3 = 0" "spec_angle 360 1 3 = 180" "spec_angle 360 2 3 = 360"
  by code_simp+

lemma ex_turn_180:
  "warp_nearest [[p1, p2]] (getRotationMatrix2D (1, 0) 180 1) (2, 1) = [[(0, 0, 0), p2]]"
  by (simp add: warp_nearest_def getRotationMatrix2D_def invert_affine_def sample_at_def
      Let_def upt_conv_Cons)

lemma ex_turn_360:
  "warp_nearest [[p1, p2]] (getRotationMatrix2D (1, 0) 360 1) (2, 1) = [[p1, p2]]"
  by (simp add: warp_nearest_def getRotationMatrix2D_def invert_affine_def sample_at_def
      Let_def upt_conv_Cons)

lemma ex_scale_multiples: "scaling_factor 2 1 180 = 1" "scaling_factor 2 1 360 = 1"
  by (simp_all add: scaling_factor_def py_mod_def)

text \<open>
  C3.  The angle applied to frame \<open>i\<close> is \<open>final_angle * progress(i)\<close>, where
  \<open>progress(i)\<close> is \<open>i / (total_frame_count - 1)\<close> when the frame count exceeds 1 and 0
  otherwise, both computed in binary64; the normal and the scaled frame are resampled at
  that angle.  A run whose sinks open writes to the normal sink and to the scaled sink,
  for every frame it processes, that frame at the angle of its index, in order.  For a
  clip of one frame and a final angle of 360 the progress is 0 and the angle is 0; when
  the resampler returns the frame itself for the identity matrix and the size of the
  frame, the normal and the scaled output frame are the input frame, and the run writes
  exactly that frame to both sinks.
\<close>

theorem rotation_angle_progress:
  "rotation_progress i n =
     Inr (if n > 1 then rnd64 (real_of_int i / real_of_int (n - 1)) else 0)
   \<and> rotation_angle fa i n =
       Inr (rnd64 (fa * (if n > 1 then rnd64 (real_of_int i / real_of_int (n - 1)) else 0)))
   \<and> spec_angle fa i n =
       rnd64 (fa * (if n > 1 then rnd64 (real_of_int i / real_of_int (n - 1)) else 0))
   \<and> rotate_frame warp w h n fa i frame =
       Inr (spec_normal warp w h (spec_angle fa i n) frame,
            spec_scaled warp w h (spec_angle fa i n) frame)
   \<and> (env pn ''mp4v'' \<and> env ps ''mp4v'' \<longrightarrow>
        (\<exists>r. apply_gradual_rotation warp env (Some v) pn ps fa = Inr r
              \<and> run_result r = Some True
              \<and> map wr_frames (run_writers r) =
                  [spec_normal_frames warp v fa, spec_scaled_frames warp v fa]))
   \<and> (\<not> (env pn ''mp4v'' \<and> env ps ''mp4v'')
        \<and> env (py_replace ''.mp4'' ''.avi'' pn) ''XVID''
        \<and> env (py_replace ''.mp4'' ''.avi'' ps) ''XVID'' \<longrightarrow>
        (\<exists>r. apply_gradual_rotation warp env (Some v) pn ps fa = Inr r
              \<and> run_result r = Some True
              \<and> map wr_frames (run_writers r) =
                  [[], [], spec_normal_frames warp v fa, spec_scaled_frames warp v fa]))
   \<and> rotation_progress 0 1 = Inr 0
   \<and> rotation_angle 360 0 1 = Inr 0
   \<and> (warp frame identity_affine (w, h) = frame \<longrightarrow>
        rotate_frame warp w h 1 360 0 frame = Inr (frame, frame))
   \<and> (v_frame_count v = 1 \<and> v_frames v = [frame] \<and> env pn ''mp4v'' \<and> env ps ''mp4v''
        \<and> warp frame identity_affine (v_width v, v_height v) = frame \<longrightarrow>
        (\<exists>r. apply_gradual_rotation warp env (Some v) pn ps 360 = Inr r
              \<and> run_result r = Some True
              \<and> map wr_frames (run_writers r) = [[frame], [frame]]))"
proof (intro conjI impI)
  show "rotation_progress i n =
     Inr (if n > 1 then rnd64 (real_of_int i / real_of_int (n - 1)) else 0)"
    by (simp add: rotation_progress_eq spec_progress_def)
  show "rotation_angle fa i n =
       Inr (rnd64 (fa * (if n > 1 then rnd64 (real_of_int i / real_of_int (n - 1)) else 0)))"
    by (simp add: rotation_angle_eq spec_angle_def spec_progress_def)
  show "spec_angle fa i n =
       rnd64 (fa * (if n > 1 then rnd64 (real_of_int i / real_of_int (n - 1)) else 0))"
    by (simp add: spec_angle_def spec_progress_def)
  show "rotate_frame warp w h n fa i frame =
       Inr (spec_normal warp w h (spec_angle fa i n) frame,
            spec_scaled warp w h (spec_angle fa i n) frame)"
    by (rule rotate_frame_eq)
  show "rotation_progress 0 1 = Inr 0"
    by (simp add: rotation_progress_eq spec_progress_def)
  show "rotation_angle 360 0 1 = Inr 0"
    by (simp add: rotation_angle_eq spec_angle_single)
  show "rotate_frame warp w h 1 360 0 frame = Inr (frame, frame)"
    if "warp frame identity_affine (w, h) = frame"
    using that by (simp add: rotate_single_frame)
next
  assume p: "env pn ''mp4v'' \<and> env ps ''mp4v''"
  show "\<exists>r. apply_gradual_rotation warp env (Some v) pn ps fa = Inr r
              \<and> run_result r = Some True
              \<and> map wr_frames (run_writers r) =
                  [spec_normal_frames warp v fa, spec_scaled_frames warp v fa]"
    unfolding rotation_primary_ok [where env = env and pn = pn and ps = ps, OF p]
    using p rotation_run_frames [where earlier = "[]" and cap = "VideoCapture v" and v = v]
    by (simp add: VideoWriter_def VideoCapture_def)
next
  assume f: "\<not> (env pn ''mp4v'' \<and> env ps ''mp4v'')
        \<and> env (py_replace ''.mp4'' ''.avi'' pn) ''XVID''
        \<and> env (py_replace ''.mp4'' ''.avi'' ps) ''XVID''"
  then have f1: "\<not> (env pn ''mp4v'' \<and> env ps ''mp4v'')"
    and f2: "env (py_replace ''.mp4'' ''.avi'' pn) ''XVID''
             \<and> env (py_replace ''.mp4'' ''.avi'' ps) ''XVID''"
    by blast+
  show "\<exists>r. apply_gradual_rotation warp env (Some v) pn ps fa = Inr r
              \<and> run_result r = Some True
              \<and> map wr_frames (run_writers r) =
                  [[], [], spec_normal_frames warp v fa, spec_scaled_frames warp v fa]"
    unfolding rotation_fallback_ok [where env = env and pn = pn and ps = ps, OF f1 f2]
    using f2 rotation_run_frames [where cap = "VideoCapture v" and v = v
        and earlier = "[wr_release (VideoWriter env pn ''mp4v'' (v_fps v) (v_width v, v_height v) True),
                        wr_release (VideoWriter env ps ''mp4v'' (v_fps v) (v_width v, v_height v) True)]"]
    by (simp add: VideoWriter_def VideoCapture_def wr_release_def)
next
  assume s: "v_frame_count v = 1 \<and> v_frames v = [frame] \<and> env pn ''mp4v'' \<and> env ps ''mp4v''
        \<and> warp frame identity_affine (v_width v, v_height v) = frame"
  then have p: "env pn ''mp4v'' \<and> env ps ''mp4v''" by blast
  have n: "spec_normal_frames warp v 360 = [frame]"
    using s by (simp add: spec_normal_frames_def frames_processed_def spec_angle_single
        spec_normal_def getRotationMatrix2D_0_1)
  have c: "spec_scaled_frames warp v 360 = [frame]"
    using s by (simp add: spec_scaled_frames_def frames_processed_def spec_angle_single
        spec_scaled_def getRotationMatrix2D_0_1 scaling_factor_0)
  show "\<exists>r. apply_gradual_rotation warp env (Some v) pn ps 360 = Inr r
              \<and> run_result r = Some True
              \<and> map wr_frames (run_writers r) = [[frame], [frame]]"
    unfolding rotation_primary_ok [where env = env and pn = pn and ps = ps, OF p]
    using p rotation_run_frames [where earlier = "[]" and cap = "VideoCapture v" and v = v
        and fa = 360 and warp = warp]
    by (simp add: VideoWriter_def VideoCapture_def n c)
qed

lemma warp_nearest_example:
  "warp_nearest [[(1, 2, 3), (4, 5, 6)]] identity_affine (2, 1) = [[(1, 2, 3), (4, 5, 6)]]"
  by (simp add: warp_nearest_def identity_affine_def invert_affine_def sample_at_def
      upt_conv_Cons)

theorem rotation_angle_progress_witness:
  "(\<exists>r. apply_gradual_rotation warp_nearest (\<lambda>path fourcc. True)
          (Some \<lparr>v_fps = 30, v_width = 2, v_height = 1, v_frame_count = 3,
                 v_frames = [[[(1, 2, 3), (4, 5, 6)]], [[(7, 8, 9), (10, 11, 12)]],
                             [[(13, 14, 15), (16, 17, 18)]]]\<rparr>)
          ''normal.mp4'' ''scaled.mp4'' 360 = Inr r
        \<and> run_result r = Some True
        \<and> map wr_frames (run_writers r) =
            [[[[(1, 2, 3), (4, 5, 6)]], [[(0, 0, 0), (10, 11, 12)]],
              [[(13, 14, 15), (16, 17, 18)]]],
             [[[(1, 2, 3), (4, 5, 6)]], [[(0, 0, 0), (10, 11, 12)]],
              [[(13, 14, 15), (16, 17, 18)]]]])
   \<and> warp_nearest [[(1, 2, 3), (4, 5, 6)]] identity_affine (2, 1) = [[(1, 2, 3), (4, 5, 6)]]
   \<and> rotate_frame warp_nearest 2 1 1 360 0 [[(1, 2, 3), (4, 5, 6)]]
       = Inr ([[(1, 2, 3), (4, 5, 6)]], [[(1, 2, 3), (4, 5, 6)]])
   \<and> (\<exists>r. apply_gradual_rotation warp_nearest (\<lambda>path fourcc. True)
              (Some \<lparr>v_fps = 30, v_width = 2, v_height = 1, v_frame_count = 1,
                     v_frames = [[[(1, 2, 3), (4, 5, 6)]]]\<rparr>)
              ''normal.mp4'' ''scaled.mp4'' 360 = Inr r
            \<and> run_result r = Some True
            \<and> map wr_frames (run_writers r)
                = [[[[(1, 2, 3), (4, 5, 6)]]], [[[(1, 2, 3), (4, 5, 6)]]]])"
proof -
  let ?F = "[[(1, 2, 3), (4, 5, 6)]] :: bgr_frame"
  let ?G = "[[(7, 8, 9), (10, 11, 12)]] :: bgr_frame"
  let ?H = "[[(13, 14, 15), (16, 17, 18)]] :: bgr_frame"
  let ?R = "[[(0, 0, 0), (10, 11, 12)]] :: bgr_frame"
  let ?V3 = "\<lparr>v_fps = 30, v_width = 2, v_height = 1, v_frame_count = 3,
              v_frames = [?F, ?G, ?H]\<rparr>"
  let ?V1 = "\<lparr>v_fps = 30, v_width = 2, v_height = 1, v_frame_count = 1, v_frames = [?F]\<rparr>"
  note t3 = rotation_angle_progress [where warp = warp_nearest and v = ?V3 and fa = 360
      and env = "\<lambda>path fourcc. True" and pn = "''normal.mp4''" and ps = "''scaled.mp4''"]
  note t1 = rotation_angle_progress [where warp = warp_nearest and v = ?V1 and frame = ?F
      and w = 2 and h = 1
      and env = "\<lambda>path fourcc. True" and pn = "''normal.mp4''" and ps = "''scaled.mp4''"]
  have e: "warp_nearest ?F identity_affine (2, 1) = ?F"
    by (rule warp_nearest_example)
  have n3: "spec_normal_frames warp_nearest ?V3 360 = [?F, ?R, ?H]"
    by (simp add: spec_normal_frames_def frames_processed_def upt_conv_Cons ex_angles_3
        spec_normal_def ex_turn_180 ex_turn_360 getRotationMatrix2D_0_1 e)
  have s3: "spec_scaled_frames warp_nearest ?V3 360 = [?F, ?R, ?H]"
    by (simp add: spec_scaled_frames_def frames_processed_def upt_conv_Cons ex_angles_3
        spec_scaled_def ex_scale_multiples scaling_factor_0 ex_turn_180 ex_turn_360
        getRotationMatrix2D_0_1 e)
  have a: "\<exists>r. apply_gradual_rotation warp_nearest (\<lambda>path fourcc. True) (Some ?V3)
                 ''normal.mp4'' ''scaled.mp4'' 360 = Inr r
               \<and> run_result r = Some True
               \<and> map wr_frames (run_writers r) = [[?F, ?R, ?H], [?F, ?R, ?H]]"
    using t3 unfolding n3 s3 by blast
  have hv: "v_frame_count ?V1 = 1 \<and> v_frames ?V1 = [?F] \<and> True \<and> True
            \<and> warp_nearest ?F identity_affine (v_width ?V1, v_height ?V1) = ?F"
    by (simp add: e)
  have b: "rotate_frame warp_nearest 2 1 1 360 0 ?F = Inr (?F, ?F)"
    using t1 e by blast
  have c: "\<exists>r. apply_gradual_rotation warp_nearest (\<lambda>path fourcc. True) (Some ?V1)
                 ''normal.mp4'' ''scaled.mp4'' 360 = Inr r
               \<and> run_result r = Some True
               \<and> map wr_frames (run_writers r) = [[?F], [?F]]"
    using t1 hv by blast
  show ?thesis using a e b c by blast
qed

section \<open>Properties of the two pipelines\<close>

lemma has_shape_dims: "has_shape f h w \<Longrightarrow> dims f = replicate (nat h) (nat w)"
proof -
  assume a: "has_shape f h w"
  then have rows: "list_all (\<lambda>row. int (length row) = w) f"
    by (simp add: has_shape_def)
  have "map length f = replicate (length f) (nat w)"
    using rows by (induction f) auto
  moreover have "length f = nat h"
    using a by (auto simp: has_shape_def)
  ultimately show ?thesis
    by (simp add: dims_def)
qed

lemma warp_nearest_shape: "0 \<le> w \<Longrightarrow> 0 \<le> h \<Longrightarrow> has_shape (warp_nearest f M (w, h)) h w"
  by (auto simp: warp_nearest_def has_shape_def list_all_iff split: prod.splits)

lemma process_video_eq:
  "v_frame_count v \<noteq> 0 \<Longrightarrow>
   process_video luma env (Some v) output_path mode =
     Inr \<lparr>run_result = None,
          run_cap = Some \<lparr>cap_opened = False, cap_pending = []\<rparr>,
          run_writers =
            [\<lparr>wr_path = output_path, wr_fourcc = ''mp4v'', wr_fps = v_fps v,
              wr_size = (v_width v, v_height v), wr_is_color = False, wr_opened = False,
              wr_frames =
                (if env output_path ''mp4v''
                 then map (\<lambda>k. adjust_contrast
                                    (contrast_alpha mode
                                       (real_of_int (int k) / real_of_int (v_frame_count v)))
                                    (cvtColor_BGR2GRAY luma (v_frames v ! k)))
                          [0..<length (v_frames v)]
                 else [])\<rparr>],
          run_log = [Finished mode output_path]\<rparr>"
  by (simp add: process_video_def Let_def contrast_loop_eq VideoCapture_def VideoWriter_def
      cap_release_def wr_release_def)


text \<open>
  C6.  Every frame either pipeline produces has the height and the width of the input
  frame.  The contrast adjuster keeps the number of rows and the length of every row.
  The rotation-scaler asks the resampler for an output of the size read from the source
  header, so its normal and its scaled frame have the dimensions of the input frame when
  the input frame has the size of the header and the resampler returns a frame of the
  requested size.
\<close>

theorem frame_dimensions_preserved:
  "dims (adjust_contrast alpha (cvtColor_BGR2GRAY luma cframe)) = dims cframe
   \<and> (contrast_frame luma mode n i cframe = Inr g \<longrightarrow> dims g = dims cframe)
   \<and> (has_shape frame height width
        \<and> (\<forall>M. has_shape (warp frame M (width, height)) height width)
        \<and> rotate_frame warp width height n' fa i' frame = Inr (rn, rs) \<longrightarrow>
        dims rn = dims frame \<and> dims rs = dims frame)"
proof (intro conjI impI)
  show c: "dims (adjust_contrast alpha (cvtColor_BGR2GRAY luma cframe)) = dims cframe"
    by (simp add: dims_adjust_contrast dims_cvtColor)
  show "dims g = dims cframe" if "contrast_frame luma mode n i cframe = Inr g"
  proof (cases "n = 0")
    case True
    with that show ?thesis by (simp add: contrast_frame_def py_truediv_def)
  next
    case False
    with that show ?thesis
      by (auto simp: contrast_frame_eq dims_adjust_contrast dims_cvtColor)
  qed
next
  assume h: "has_shape frame height width
        \<and> (\<forall>M. has_shape (warp frame M (width, height)) height width)
        \<and> rotate_frame warp width height n' fa i' frame = Inr (rn, rs)"
  then have f: "dims frame = replicate (nat height) (nat width)"
    by (simp add: has_shape_dims)
  from h have sh: "has_shape (warp frame M (width, height)) height width" for M
    by blast
  from h have e: "rotate_frame warp width height n' fa i' frame = Inr (rn, rs)"
    by blast
  define angle where "angle = spec_angle fa i' n'"
  define M1 where "M1 = getRotationMatrix2D (width div 2, height div 2) angle 1"
  define M2 where "M2 = getRotationMatrix2D (width div 2, height div 2) angle
                          (scaling_factor width height angle)"
  have "rotate_frame warp width height n' fa i' frame =
          Inr (warp frame M1 (width, height), warp frame M2 (width, height))"
    unfolding M1_def M2_def angle_def rotate_frame_eq spec_normal_def spec_scaled_def ..
  with e have "rn = warp frame M1 (width, height)" and "rs = warp frame M2 (width, height)"
    by simp_all
  then have "has_shape rn height width" and "has_shape rs height width"
    using sh [of M1] sh [of M2] by simp_all
  then show "dims rn = dims frame" and "dims rs = dims frame"
    by (simp_all add: f has_shape_dims)
qed

theorem frame_dimensions_preserved_witness:
  "has_shape ([[(1, 2, 3), (4, 5, 6)]] :: bgr_frame) 1 2
   \<and> (\<forall>M. has_shape (warp_nearest [[(1, 2, 3), (4, 5, 6)]] M (2, 1)) 1 2)
   \<and> (\<exists>rn rs. rotate_frame warp_nearest 2 1 3 360 1 [[(1, 2, 3), (4, 5, 6)]] = Inr (rn, rs)
         \<and> dims rn = [2] \<and> dims rs = [2])
   \<and> (\<exists>g. contrast_frame luma_fixed ''sine'' 3 1 [[(1, 2, 3), (4, 5, 6)]] = Inr g
         \<and> dims g = [2])"
proof -
  let ?F = "[[(1, 2, 3), (4, 5, 6)]] :: bgr_frame"
  have s: "has_shape ?F 1 2"
    by (simp add: has_shape_def)
  have w: "\<forall>M. has_shape (warp_nearest ?F M (2, 1)) 1 2"
    by (simp add: warp_nearest_shape)
  obtain rn rs where r: "rotate_frame warp_nearest 2 1 3 360 1 ?F = Inr (rn, rs)"
    by (simp add: rotate_frame_eq Let_def)
  obtain g where g: "contrast_frame luma_fixed ''sine'' 3 1 ?F = Inr g"
    by (simp add: contrast_frame_eq)
  note t = frame_dimensions_preserved [where luma = luma_fixed and cframe = ?F
      and mode = "''sine''" and n = 3 and i = 1 and g = g and frame = ?F and height = 1
      and width = 2 and warp = warp_nearest and n' = 3 and fa = 360 and i' = 1
      and rn = rn and rs = rs]
  have d: "dims ?F = [2]" by (simp add: dims_def)
  have "dims rn = [2] \<and> dims rs = [2]" using t s w r d by simp
  moreover have "dims g = [2]" using t g d by simp
  ultimately show ?thesis using s w r g by blast
qed

text \<open>
  C10.  The contrast pipeline reads colour (BGR) frames, opens its sink with
  \<open>isColor=False\<close>, and returns normally whenever the frame count is not zero; every
  frame it writes is the contrast transform of the grayscale conversion of the input
  frame at the same position, so the written video is single-channel.
\<close>

theorem contrast_output_grayscale:
  "v_frame_count v \<noteq> 0 \<Longrightarrow>
   \<exists>r w. process_video luma env (Some v) output_path mode = Inr r
        \<and> run_writers r = [w]
        \<and> \<not> wr_is_color w
        \<and> wr_frames w =
            (if env output_path ''mp4v''
             then map (\<lambda>k. adjust_contrast
                                (contrast_alpha mode
                                   (real_of_int (int k) / real_of_int (v_frame_count v)))
                                (cvtColor_BGR2GRAY luma (v_frames v ! k)))
                      [0..<length (v_frames v)]
             else [])"
  by (simp add: process_video_eq)

theorem contrast_output_grayscale_witness:
  "\<exists>r w. process_video luma_fixed (\<lambda>path fourcc. True)
            (Some \<lparr>v_fps = 30, v_width = 2, v_height = 1, v_frame_count = 2,
                   v_frames = [[[(10, 10, 10), (30, 30, 30)]], [[(0, 0, 255), (255, 0, 0)]]]\<rparr>)
            ''out.mp4'' ''other'' = Inr r
        \<and> run_writers r = [w]
        \<and> \<not> wr_is_color w
        \<and> wr_frames w = [[[10, 30]], [[76, 29]]]"
proof -
  let ?V = "\<lparr>v_fps = 30, v_width = 2, v_height = 1, v_frame_count = 2,
             v_frames = [[[(10, 10, 10), (30, 30, 30)]], [[(0, 0, 255), (255, 0, 0)]]]\<rparr>"
  have n: "v_frame_count ?V \<noteq> 0" by simp
  have c: "cvtColor_BGR2GRAY luma_fixed [[(10, 10, 10), (30, 30, 30)]] = [[10, 30]]"
      "cvtColor_BGR2GRAY luma_fixed [[(0, 0, 255), (255, 0, 0)]] = [[76, 29]]"
    by (simp_all add: cvtColor_BGR2GRAY_def luma_fixed_def)
  show ?thesis
    using contrast_output_grayscale [OF n, of luma_fixed "\<lambda>path fourcc. True" "''out.mp4''" "''other''"]
    by (simp add: c contrast_alpha_def adjust_identity upt_conv_Cons)
qed

section \<open>Failure paths\<close>

lemma replace_normal: "py_replace ''.mp4'' ''.avi'' ''normal.mp4'' = ''normal.avi''"
  by code_simp

lemma replace_scaled: "py_replace ''.mp4'' ''.avi'' ''scaled.mp4'' = ''scaled.avi''"
  by code_simp

lemma wr_write_fields:
  "wr_path (wr_write w f) = wr_path w" "wr_fourcc (wr_write w f) = wr_fourcc w"
  "wr_opened (wr_write w f) = wr_opened w"
  by (simp_all add: wr_write_def)

lemma rotation_loop_writers:
  "rotation_loop warp w h n fa i frames out_n out_s msgs = Inr (pending, out_n', out_s', msgs')
   \<Longrightarrow> wr_path out_n' = wr_path out_n \<and> wr_fourcc out_n' = wr_fourcc out_n
       \<and> wr_path out_s' = wr_path out_s \<and> wr_fourcc out_s' = wr_fourcc out_s"
proof (induction frames arbitrary: i out_n out_s msgs)
  case Nil
  then show ?case by simp
next
  case (Cons f fs)
  show ?case
  proof (cases "i < n")
    case True
    obtain rf rsf where r: "rotate_frame warp w h n fa i f = Inr (rf, rsf)"
      by (simp add: rotate_frame_eq Let_def)
    from Cons.prems True r obtain m where
      "rotation_loop warp w h n fa (i + 1) fs (wr_write out_n rf) (wr_write out_s rsf) m
         = Inr (pending, out_n', out_s', msgs')"
      by (auto split: sum.splits)
    from Cons.IH [OF this] show ?thesis
      by (simp add: wr_write_fields)
  next
    case False
    with Cons.prems show ?thesis by simp
  qed
qed

lemma rotation_run_result:
  assumes "rotation_run warp v fa cap earlier out_n out_s msgs = Inr r"
  shows "run_result r = Some True
   \<and> (\<exists>c. run_cap r = Some c \<and> \<not> cap_opened c)
   \<and> (\<exists>w1 w2. run_writers r = earlier @ [w1, w2] \<and> \<not> wr_opened w1 \<and> \<not> wr_opened w2
         \<and> wr_path w1 = wr_path out_n \<and> wr_fourcc w1 = wr_fourcc out_n
         \<and> wr_path w2 = wr_path out_s \<and> wr_fourcc w2 = wr_fourcc out_s)"
proof -
  from assms obtain pending out_n' out_s' msgs' where
    l: "rotation_loop warp (v_width v) (v_height v) (v_frame_count v) fa 0 (cap_pending cap)
          out_n out_s msgs = Inr (pending, out_n', out_s', msgs')"
    and r: "r = \<lparr>run_result = Some True,
               run_cap = Some (cap_release (cap\<lparr>cap_pending := pending\<rparr>)),
               run_writers = earlier @ [wr_release out_n', wr_release out_s'],
               run_log = msgs' @ [SavedNormal (wr_path out_n'), SavedScaled (wr_path out_s')]\<rparr>"
    by (auto simp: rotation_run_def split: sum.splits)
  from rotation_loop_writers [OF l] show ?thesis
    by (simp add: r cap_release_def wr_release_def)
qed


text \<open>
  The rotation pipeline opens its two sinks with mp4v; if either did not open, it opens
  both again, once, as XVID in an .avi container; if either still did not open, it
  returns \<open>False\<close>, prints the error and has written no frame.
\<close>

lemma rotation_sink_attempts:
  assumes "apply_gradual_rotation warp env (Some v) pn ps fa = Inr r"
  shows "map (\<lambda>w. (wr_path w, wr_fourcc w)) (run_writers r) =
           (if env pn ''mp4v'' \<and> env ps ''mp4v''
            then [(pn, ''mp4v''), (ps, ''mp4v'')]
            else [(pn, ''mp4v''), (ps, ''mp4v''),
                  (py_replace ''.mp4'' ''.avi'' pn, ''XVID''),
                  (py_replace ''.mp4'' ''.avi'' ps, ''XVID'')])"
proof (cases "env pn ''mp4v'' \<and> env ps ''mp4v''")
  case True
  note run = assms [unfolded rotation_primary_ok [where env = env and pn = pn and ps = ps, OF True]]
  from rotation_run_result [OF run] show ?thesis
    using True by (auto simp: VideoWriter_def)
next
  case False
  show ?thesis
  proof (cases "env (py_replace ''.mp4'' ''.avi'' pn) ''XVID''
                \<and> env (py_replace ''.mp4'' ''.avi'' ps) ''XVID''")
    case True
    note run = assms [unfolded rotation_fallback_ok
        [where env = env and pn = pn and ps = ps, OF False True]]
    from rotation_run_result [OF run] show ?thesis
      using False by (auto simp: VideoWriter_def wr_release_def)
  next
    case F2: False
    note res = assms [unfolded rotation_fallback_fails
        [where env = env and pn = pn and ps = ps, OF False F2]]
    from res show ?thesis
      using False by (auto simp: VideoWriter_def wr_release_def)
  qed
qed

lemma rotation_abort_writes_nothing:
  assumes "\<not> (env pn ''mp4v'' \<and> env ps ''mp4v'')"
    and "\<not> (env (py_replace ''.mp4'' ''.avi'' pn) ''XVID''
            \<and> env (py_replace ''.mp4'' ''.avi'' ps) ''XVID'')"
  shows "\<exists>r. apply_gradual_rotation warp env (Some v) pn ps fa = Inr r
             \<and> run_result r = Some False \<and> ErrNoCodec \<in> set (run_log r)
             \<and> list_all (\<lambda>w. wr_frames w = []) (run_writers r)"
  unfolding rotation_fallback_fails [where env = env and pn = pn and ps = ps, OF assms]
  by (simp add: VideoWriter_def wr_release_def)

text \<open>When the rotation pipeline returns \<open>True\<close>, the capture and every writer are released.\<close>

lemma rotation_success_releases:
  assumes "apply_gradual_rotation warp env (Some v) pn ps fa = Inr r"
    and "run_result r = Some True"
  shows "(\<exists>c. run_cap r = Some c \<and> \<not> cap_opened c)
         \<and> list_all (\<lambda>w. \<not> wr_opened w) (run_writers r)"
proof (cases "env pn ''mp4v'' \<and> env ps ''mp4v''")
  case True
  note run = assms(1) [unfolded rotation_primary_ok
      [where env = env and pn = pn and ps = ps, OF True]]
  from rotation_run_result [OF run] show ?thesis
    by auto
next
  case False
  show ?thesis
  proof (cases "env (py_replace ''.mp4'' ''.avi'' pn) ''XVID''
                \<and> env (py_replace ''.mp4'' ''.avi'' ps) ''XVID''")
    case True
    note run = assms(1) [unfolded rotation_fallback_ok
        [where env = env and pn = pn and ps = ps, OF False True]]
    from rotation_run_result [OF run] show ?thesis
      by (auto simp: wr_release_def)
  next
    case F2: False
    note res = assms(1) [unfolded rotation_fallback_fails
        [where env = env and pn = pn and ps = ps, OF False F2]]
    from res assms(2) show ?thesis by auto
  qed
qed

text \<open>The rotation pipeline never raises: its divisions are guarded.\<close>

lemma apply_gradual_rotation_no_error:
  "\<exists>r. apply_gradual_rotation warp env source pn ps fa = Inr r"
proof (cases source)
  case None
  then show ?thesis by (simp add: apply_gradual_rotation_def)
next
  case (Some v)
  have run: "\<exists>r. rotation_run warp v fa cap earlier out_n out_s msgs = Inr r"
    for cap earlier out_n out_s msgs
    using rotation_loop_no_error [of 0 warp "v_width v" "v_height v" "v_frame_count v" fa
        "cap_pending cap" out_n out_s msgs]
    by (auto simp: rotation_run_def)
  show ?thesis
  proof (cases "env pn ''mp4v'' \<and> env ps ''mp4v''")
    case True
    show ?thesis unfolding Some rotation_primary_ok [where env = env and pn = pn and ps = ps, OF True] by (rule run)
  next
    case False
    show ?thesis
    proof (cases "env (py_replace ''.mp4'' ''.avi'' pn) ''XVID''
                  \<and> env (py_replace ''.mp4'' ''.avi'' ps) ''XVID''")
      case True
      show ?thesis
        unfolding Some rotation_fallback_ok
          [where env = env and pn = pn and ps = ps, OF False True]
        by (rule run)
    next
      case F2: False
      show ?thesis
        unfolding Some rotation_fallback_fails
          [where env = env and pn = pn and ps = ps, OF False F2]
        by simp
    qed
  qed
qed

text \<open>
  C7.  The progress computation is claimed never to divide by zero in either pipeline.
  The rotation pipeline guards its division (see \<open>rotation_progress_eq\<close> and
  \<open>apply_gradual_rotation_no_error\<close>); the contrast pipeline divides the frame index by
  the declared frame count without a guard, so a source that declares 0 frames and
  delivers one makes the run raise \<open>ZeroDivisionError\<close>.
\<close>

theorem contrast_zero_frame_count_raises:
  "process_video luma_fixed (\<lambda>path fourcc. True)
     (Some \<lparr>v_fps = 30, v_width = 1, v_height = 1, v_frame_count = 0,
            v_frames = [[[(0, 0, 0)]]]\<rparr>)
     ''out.mp4'' ''linear'' = Inl ZeroDivisionError"
  by (simp add: process_video_def Let_def VideoCapture_def VideoWriter_def contrast_frame_def
      py_truediv_def)

text \<open>
  C8.  Both pipelines are claimed to fall back once to another codec when the sink does
  not open, and to abort with a failure report when the fallback fails too.  The
  rotation pipeline does (see \<open>rotation_sink_attempts\<close> and
  \<open>rotation_abort_writes_nothing\<close>); the contrast pipeline creates one mp4v writer,
  never looks at whether it opened, creates no other writer and prints its closing line
  as after a successful run.
\<close>

theorem contrast_sink_failure_no_fallback:
  "process_video luma_fixed (\<lambda>path fourcc. False)
     (Some \<lparr>v_fps = 30, v_width = 1, v_height = 1, v_frame_count = 1,
            v_frames = [[[(0, 0, 0)]]]\<rparr>)
     ''out.mp4'' ''linear'' =
   Inr \<lparr>run_result = None,
        run_cap = Some \<lparr>cap_opened = False, cap_pending = []\<rparr>,
        run_writers =
          [\<lparr>wr_path = ''out.mp4'', wr_fourcc = ''mp4v'', wr_fps = 30, wr_size = (1, 1),
            wr_is_color = False, wr_opened = False, wr_frames = []\<rparr>],
        run_log = [Finished ''linear'' ''out.mp4'']\<rparr>"
  by (simp add: process_video_eq)

text \<open>
  C9.  Every exit path is claimed to release every handle that was acquired.  The normal
  exit of both pipelines does (see \<open>process_video_eq\<close> and \<open>rotation_success_releases\<close>);
  when the rotation pipeline gives up after the failed fallback it returns \<open>False\<close> with
  the capture still open.
\<close>

theorem rotation_sink_failure_leaks_source:
  "apply_gradual_rotation warp_nearest (\<lambda>path fourcc. False)
     (Some \<lparr>v_fps = 30, v_width = 1, v_height = 1, v_frame_count = 1,
            v_frames = [[[(0, 0, 0)]]]\<rparr>)
     ''normal.mp4'' ''scaled.mp4'' 360 =
   Inr \<lparr>run_result = Some False,
        run_cap = Some \<lparr>cap_opened = True, cap_pending = [[[(0, 0, 0)]]]\<rparr>,
        run_writers =
          [\<lparr>wr_path = ''normal.mp4'', wr_fourcc = ''mp4v'', wr_fps = 30, wr_size = (1, 1),
            wr_is_color = True, wr_opened = False, wr_frames = []\<rparr>,
           \<lparr>wr_path = ''scaled.mp4'', wr_fourcc = ''mp4v'', wr_fps = 30, wr_size = (1, 1),
            wr_is_color = True, wr_opened = False, wr_frames = []\<rparr>,
           \<lparr>wr_path = ''normal.avi'', wr_fourcc = ''XVID'', wr_fps = 30, wr_size = (1, 1),
            wr_is_color = True, wr_opened = False, wr_frames = []\<rparr>,
           \<lparr>wr_path = ''scaled.avi'', wr_fourcc = ''XVID'', wr_fps = 30, wr_size = (1, 1),
            wr_is_color = True, wr_opened = False, wr_frames = []\<rparr>],
        run_log = [VideoInfo 1 1 30 1, WarnTryingXVID, ErrNoCodec]\<rparr>"
  by (simp add: apply_gradual_rotation_def Let_def VideoCapture_def VideoWriter_def
      wr_release_def replace_normal replace_scaled)

text \<open>What the rotation pipeline does about its sinks.\<close>

end
